theory Spec2Isabelle
  imports Complex_Main "HOL-Library.Word"
begin

unbundle bit_operations_syntax

section \<open>Conventions\<close>

text \<open>
  The development embeds \<^verbatim>\<open>src/mpu6050.py\<close> (the sensor driver) and
  \<^verbatim>\<open>src/motion_control.py\<close> (the filter, the classifier and the display loop).

  \<^item> A Python \<^verbatim>\<open>int\<close> is an \<open>int\<close>; a byte of a \<^verbatim>\<open>bytes\<close> object is an
    \<open>8 word\<close>.
  \<^item> A Python \<^verbatim>\<open>float\<close> is a \<open>real\<close>; infinities and NaN are not modelled.
    Comparisons of finite floats agree with the comparisons of the reals they denote.
    In \<^verbatim>\<open>get_values\<close> every floating-point operation rounds its exact result with a
    function \<open>fl\<close>, a parameter of the model: \<open>binary64\<close> below is the rounding of IEEE
    double precision, the identity gives exact arithmetic. Elsewhere \<open>+\<close>, \<open>-\<close>, \<open>*\<close>,
    \<open>/\<close> are the exact operations.
  \<^item> A raised exception is a value of type \<open>error\<close>, on the left of a sum.
  \<^item> A dictionary with a fixed literal key set \<^verbatim>\<open>{"x", "y", "z"}\<close> is the record
    \<open>xyz\<close>; a dictionary whose keys are inserted and tested at run time is an
    association list in insertion order.
\<close>

datatype error = ZeroDivisionError | KeyError string | NameError string

section \<open>Register interface: \<^verbatim>\<open>MPU6050.read_raw_data\<close>\<close>

type_synonym byte = "8 word"

text \<open>
  The combination step of \<^verbatim>\<open>read_raw_data\<close>, lines 37 to 40 of \<^verbatim>\<open>mpu6050.py\<close>:
  \<^verbatim>\<open>value = (data[0] << 8) | data[1]; if value > 32767: value -= 65536\<close>.
\<close>

definition combine :: "byte \<Rightarrow> byte \<Rightarrow> int" where
  "combine b0 b1 =
     (let value = push_bit 8 (uint b0) OR uint b1
      in if value > 32767 then value - 65536 else value)"

text \<open>
  The two-byte big-endian two's-complement encoding of a signed value, the inverse the
  round-trip property is stated against. It is not part of the driver (the sensor
  produces the bytes).
\<close>

definition encode_be :: "int \<Rightarrow> byte \<times> byte" where
  "encode_be v = (word_of_int ((v mod 65536) div 256), word_of_int (v mod 256))"

text \<open>The sign conversion of lines 38 and 39 on its own, used to reason about \<open>combine\<close>.\<close>

definition to_signed :: "int \<Rightarrow> int" where
  "to_signed value = (if value > 32767 then value - 65536 else value)"

text \<open>
  The bus is an external device. \<open>bus n reg\<close> is the pair of bytes that the \<open>n\<close>-th call of
  \<^verbatim>\<open>i2c.readfrom_mem(addr, reg, 2)\<close> returns; nothing is assumed about how the
  sensor's registers change between two reads.
\<close>

type_synonym i2c = "nat \<Rightarrow> nat \<Rightarrow> byte \<times> byte"

definition ACCEL_XOUT_H :: nat where "ACCEL_XOUT_H = 0x3B"
definition GYRO_XOUT_H :: nat where "GYRO_XOUT_H = 0x43"
definition TEMP_OUT_H :: nat where "TEMP_OUT_H = 0x41"

definition ACCEL_SCALE_MODIFIER_2G :: real where "ACCEL_SCALE_MODIFIER_2G = 16384"
definition GYRO_SCALE_MODIFIER_250DEG :: real where "GYRO_SCALE_MODIFIER_250DEG = 131"

definition read_raw_data :: "i2c \<Rightarrow> nat \<Rightarrow> nat \<Rightarrow> int" where
  "read_raw_data bus n reg = (case bus n reg of (d0, d1) \<Rightarrow> combine d0 d1)"

section \<open>Exceptions and dictionaries\<close>

definition bind_result :: "error + 'a \<Rightarrow> ('a \<Rightarrow> error + 'b) \<Rightarrow> error + 'b" where
  "bind_result r f = (case r of Inl e \<Rightarrow> Inl e | Inr v \<Rightarrow> f v)"

text \<open>Python's \<^verbatim>\<open>a / b\<close> with an integer divisor: it raises when \<open>b\<close> is zero.\<close>

definition truediv :: "real \<Rightarrow> int \<Rightarrow> error + real" where
  "truediv a b = (if b = 0 then Inl ZeroDivisionError else Inr (a / real_of_int b))"

type_synonym dict = "(string \<times> real) list"

text \<open>
  \<^verbatim>\<open>k in d\<close>, \<^verbatim>\<open>d[k]\<close>, \<^verbatim>\<open>d[k] = v\<close> (a new key goes last) and the floating-point
  \<^verbatim>\<open>d[k] += v\<close>, whose sum is rounded by \<open>fl\<close>.
\<close>

definition dict_contains :: "string \<Rightarrow> dict \<Rightarrow> bool" where
  "dict_contains k d = (map_of d k \<noteq> None)"

definition dict_get :: "dict \<Rightarrow> string \<Rightarrow> error + real" where
  "dict_get d k = (case map_of d k of None \<Rightarrow> Inl (KeyError k) | Some v \<Rightarrow> Inr v)"

fun dict_set :: "string \<Rightarrow> real \<Rightarrow> dict \<Rightarrow> dict" where
  "dict_set k v [] = [(k, v)]"
| "dict_set k v ((k', v') # d) =
     (if k' = k then (k, v) # d else (k', v') # dict_set k v d)"

definition dict_iadd :: "(real \<Rightarrow> real) \<Rightarrow> string \<Rightarrow> real \<Rightarrow> dict \<Rightarrow> error + dict" where
  "dict_iadd fl k v d =
     bind_result (dict_get d k) (\<lambda>old. Inr (dict_set k (fl (old + v)) d))"

text \<open>A run of \<^verbatim>\<open>d[k] += v\<close> statements, in the order written.\<close>

fun dict_iadd_all :: "(real \<Rightarrow> real) \<Rightarrow> (string \<times> real) list \<Rightarrow> dict \<Rightarrow> error + dict" where
  "dict_iadd_all fl [] d = Inr d"
| "dict_iadd_all fl ((k, v) # kvs) d =
     bind_result (dict_iadd fl k v d) (dict_iadd_all fl kvs)"

text \<open>
  \<^verbatim>\<open>for key in values: values[key] /= samples\<close>: the first division that raises ends it;
  each quotient is rounded by \<open>fl\<close>. The count is converted to a float without error, as
  every count below \<open>2 ^ 53\<close> is in double precision.
\<close>

fun dict_idiv_all :: "(real \<Rightarrow> real) \<Rightarrow> dict \<Rightarrow> int \<Rightarrow> error + dict" where
  "dict_idiv_all fl [] samples = Inr []"
| "dict_idiv_all fl ((k, v) # d) samples =
     bind_result (truediv v samples) (\<lambda>q.
     bind_result (dict_idiv_all fl d samples) (\<lambda>d'. Inr ((k, fl q) # d')))"

section \<open>The driver object\<close>

text \<open>The dictionaries \<^verbatim>\<open>{"x": .., "y": .., "z": ..}\<close>.\<close>

record axes =
  ax_x :: real
  ax_y :: real
  ax_z :: real

definition zero_axes :: axes where
  "zero_axes = \<lparr>ax_x = 0, ax_y = 0, ax_z = 0\<rparr>"

text \<open>
  The fields of an \<^verbatim>\<open>MPU6050\<close> object that change, and \<open>reads\<close>, the number of bus reads
  made so far (the index of the next one).
\<close>

record mpu6050 =
  reads :: nat
  accel_offsets :: axes
  gyro_offsets :: axes

subsection \<open>\<^verbatim>\<open>MPU6050.calibrate\<close>\<close>

text \<open>The loop of lines 49 to 68; \<open>k\<close> iterations are left, \<open>n\<close> bus reads were made.\<close>

fun calibrate_loop :: "i2c \<Rightarrow> nat \<Rightarrow> nat \<times> axes \<times> axes \<Rightarrow> nat \<times> axes \<times> axes" where
  "calibrate_loop bus 0 st = st"
| "calibrate_loop bus (Suc k) (n, accel_sum, gyro_sum) =
     (let accel_x = read_raw_data bus n ACCEL_XOUT_H;
          accel_y = read_raw_data bus (n + 1) (ACCEL_XOUT_H + 2);
          accel_z = read_raw_data bus (n + 2) (ACCEL_XOUT_H + 4);
          gyro_x = read_raw_data bus (n + 3) GYRO_XOUT_H;
          gyro_y = read_raw_data bus (n + 4) (GYRO_XOUT_H + 2);
          gyro_z = read_raw_data bus (n + 5) (GYRO_XOUT_H + 4);
          accel_sum' = \<lparr>ax_x = ax_x accel_sum + real_of_int accel_x,
                        ax_y = ax_y accel_sum + real_of_int accel_y,
                        ax_z = ax_z accel_sum + (real_of_int accel_z - ACCEL_SCALE_MODIFIER_2G)\<rparr>;
          gyro_sum' = \<lparr>ax_x = ax_x gyro_sum + real_of_int gyro_x,
                       ax_y = ax_y gyro_sum + real_of_int gyro_y,
                       ax_z = ax_z gyro_sum + real_of_int gyro_z\<rparr>
      in calibrate_loop bus k (n + 6, accel_sum', gyro_sum'))"

text \<open>
  \<^verbatim>\<open>calibrate(samples)\<close> returns the outcome and the object as the call leaves it. The six
  assignments of lines 71 to 77 are made one after the other; a division that raises
  leaves the object as the assignments before it made it.
\<close>

definition calibrate :: "i2c \<Rightarrow> mpu6050 \<Rightarrow> int \<Rightarrow> (error + unit) \<times> mpu6050" where
  "calibrate bus self samples =
     (case calibrate_loop bus (nat samples) (reads self, zero_axes, zero_axes) of
        (n, accel_sum, gyro_sum) \<Rightarrow>
          let s0 = self\<lparr>reads := n\<rparr> in
          case truediv (ax_x accel_sum) samples of Inl e \<Rightarrow> (Inl e, s0) | Inr v \<Rightarrow>
          let s1 = s0\<lparr>accel_offsets := (accel_offsets s0)\<lparr>ax_x := v\<rparr>\<rparr> in
          case truediv (ax_y accel_sum) samples of Inl e \<Rightarrow> (Inl e, s1) | Inr v \<Rightarrow>
          let s2 = s1\<lparr>accel_offsets := (accel_offsets s1)\<lparr>ax_y := v\<rparr>\<rparr> in
          case truediv (ax_z accel_sum) samples of Inl e \<Rightarrow> (Inl e, s2) | Inr v \<Rightarrow>
          let s3 = s2\<lparr>accel_offsets := (accel_offsets s2)\<lparr>ax_z := v\<rparr>\<rparr> in
          case truediv (ax_x gyro_sum) samples of Inl e \<Rightarrow> (Inl e, s3) | Inr v \<Rightarrow>
          let s4 = s3\<lparr>gyro_offsets := (gyro_offsets s3)\<lparr>ax_x := v\<rparr>\<rparr> in
          case truediv (ax_y gyro_sum) samples of Inl e \<Rightarrow> (Inl e, s4) | Inr v \<Rightarrow>
          let s5 = s4\<lparr>gyro_offsets := (gyro_offsets s4)\<lparr>ax_y := v\<rparr>\<rparr> in
          case truediv (ax_z gyro_sum) samples of Inl e \<Rightarrow> (Inl e, s5) | Inr v \<Rightarrow>
          let s6 = s5\<lparr>gyro_offsets := (gyro_offsets s5)\<lparr>ax_z := v\<rparr>\<rparr> in
          (Inr (), s6))"

subsection \<open>\<^verbatim>\<open>MPU6050.get_values\<close>\<close>

definition initial_values :: dict where
  "initial_values =
     [(''GyX'', 0), (''GyY'', 0), (''GyZ'', 0), (''Tmp'', 0),
      (''AcX'', 0), (''AcY'', 0), (''AcZ'', 0)]"

text \<open>
  One iteration of the loop of lines 89 to 135, whose seven reads are \<open>n, \<dots>, n + 6\<close>.
  Each difference, quotient and sum is a floating-point operation and is rounded by
  \<open>fl\<close>; the literals 340.0, 131.0 and 16384.0 are exact in binary floating point, the
  literal 36.53 is not and denotes \<open>fl (3653 / 100)\<close>. The offsets are floats, as
  \<^verbatim>\<open>calibrate\<close> leaves them; an object whose offsets are still the integers 0 of
  \<^verbatim>\<open>__init__\<close> gives the same values whenever \<open>fl\<close> leaves the integers that occur
  unchanged.
\<close>

definition get_values_body ::
  "(real \<Rightarrow> real) \<Rightarrow> i2c \<Rightarrow> mpu6050 \<Rightarrow> nat \<Rightarrow> dict \<Rightarrow> error + dict" where
  "get_values_body fl bus self n values =
     (let accel_x = fl (real_of_int (read_raw_data bus n ACCEL_XOUT_H)
                        - ax_x (accel_offsets self));
          accel_y = fl (real_of_int (read_raw_data bus (n + 1) (ACCEL_XOUT_H + 2))
                        - ax_y (accel_offsets self));
          accel_z = fl (real_of_int (read_raw_data bus (n + 2) (ACCEL_XOUT_H + 4))
                        - ax_z (accel_offsets self));
          gyro_x = fl (real_of_int (read_raw_data bus (n + 3) GYRO_XOUT_H)
                       - ax_x (gyro_offsets self));
          gyro_y = fl (real_of_int (read_raw_data bus (n + 4) (GYRO_XOUT_H + 2))
                       - ax_y (gyro_offsets self));
          gyro_z = fl (real_of_int (read_raw_data bus (n + 5) (GYRO_XOUT_H + 4))
                       - ax_z (gyro_offsets self));
          temp = fl (fl (real_of_int (read_raw_data bus (n + 6) TEMP_OUT_H) / 340)
                     + fl (3653 / 100));
          accel_x_g = fl (accel_x / ACCEL_SCALE_MODIFIER_2G);
          accel_y_g = fl (accel_y / ACCEL_SCALE_MODIFIER_2G);
          accel_z_g = fl (accel_z / ACCEL_SCALE_MODIFIER_2G);
          gyro_x_deg = fl (gyro_x / GYRO_SCALE_MODIFIER_250DEG);
          gyro_y_deg = fl (gyro_y / GYRO_SCALE_MODIFIER_250DEG);
          gyro_z_deg = fl (gyro_z / GYRO_SCALE_MODIFIER_250DEG)
      in bind_result
           (dict_iadd_all fl
              [(''GyX'', gyro_x), (''GyY'', gyro_y), (''GyZ'', gyro_z), (''Tmp'', temp),
               (''AcX'', accel_x), (''AcY'', accel_y), (''AcZ'', accel_z)] values)
           (\<lambda>values.
              let values =
                    (if \<not> dict_contains ''GyX_deg'' values
                     then dict_set ''AcZ_g'' 0 (dict_set ''AcY_g'' 0 (dict_set ''AcX_g'' 0
                            (dict_set ''GyZ_deg'' 0 (dict_set ''GyY_deg'' 0
                              (dict_set ''GyX_deg'' 0 values)))))
                     else values)
              in dict_iadd_all fl
                   [(''GyX_deg'', gyro_x_deg), (''GyY_deg'', gyro_y_deg), (''GyZ_deg'', gyro_z_deg),
                    (''AcX_g'', accel_x_g), (''AcY_g'', accel_y_g), (''AcZ_g'', accel_z_g)] values))"

fun get_values_loop ::
  "(real \<Rightarrow> real) \<Rightarrow> i2c \<Rightarrow> mpu6050 \<Rightarrow> nat \<Rightarrow> nat \<Rightarrow> dict \<Rightarrow> (error + dict) \<times> nat" where
  "get_values_loop fl bus self 0 n values = (Inr values, n)"
| "get_values_loop fl bus self (Suc k) n values =
     (case get_values_body fl bus self n values of
        Inl e \<Rightarrow> (Inl e, n + 7)
      | Inr values' \<Rightarrow> get_values_loop fl bus self k (n + 7) values')"

definition get_values ::
  "(real \<Rightarrow> real) \<Rightarrow> i2c \<Rightarrow> mpu6050 \<Rightarrow> int \<Rightarrow> (error + dict) \<times> mpu6050" where
  "get_values fl bus self samples =
     (case get_values_loop fl bus self (nat samples) (reads self) initial_values of
        (Inl e, n) \<Rightarrow> (Inl e, self\<lparr>reads := n\<rparr>)
      | (Inr values, n) \<Rightarrow> (dict_idiv_all fl values samples, self\<lparr>reads := n\<rparr>))"

subsection \<open>\<^verbatim>\<open>MPU6050.apply_complementary_filter\<close>\<close>

text \<open>
  The library functions \<^verbatim>\<open>math.atan2\<close> and \<^verbatim>\<open>math.sqrt\<close> are the real functions;
  \<open>atan2 y x\<close> is the angle of the point \<open>(x, y)\<close> in \<open>(-\<pi>, \<pi>]\<close> (signed zeros are not
  modelled).
\<close>

definition atan2 :: "real \<Rightarrow> real \<Rightarrow> real" where
  "atan2 y x =
     (if x > 0 then arctan (y / x)
      else if x < 0 then (if y \<ge> 0 then arctan (y / x) + pi else arctan (y / x) - pi)
      else if y > 0 then pi / 2
      else if y < 0 then - (pi / 2)
      else 0)"

text \<open>
  Name resolution. The names bound at the top level of \<^verbatim>\<open>mpu6050.py\<close> are those of
  its two import statements and of its class. A name that a function body assigns is a
  local variable of that function everywhere in the body; reading it before it is bound
  raises, as reading an unbound global name does.
\<close>

definition mpu6050_globals :: "string list" where
  "mpu6050_globals = [''time'', ''I2C'', ''MPU6050'']"

definition load_global :: "string list \<Rightarrow> string \<Rightarrow> error + unit" where
  "load_global globals name = (if name \<in> set globals then Inr () else Inl (NameError name))"

definition load_local :: "dict \<Rightarrow> string \<Rightarrow> error + real" where
  "load_local locals name =
     (case map_of locals name of None \<Rightarrow> Inl (NameError name) | Some v \<Rightarrow> Inr v)"

text \<open>
  Lines 143 to 157, each name and subscript evaluated in the order Python evaluates
  them; \<open>locals\<close> holds the local variables the body has assigned so far.
\<close>

definition apply_complementary_filter ::
  "string list \<Rightarrow> dict \<Rightarrow> dict \<Rightarrow> real \<Rightarrow> real \<Rightarrow> error + dict" where
  "apply_complementary_filter globals accel_data gyro_data dt a =
     bind_result (load_global globals ''math'') (\<lambda>_.
     bind_result (dict_get accel_data ''AcY_g'') (\<lambda>acy.
     bind_result (dict_get accel_data ''AcZ_g'') (\<lambda>acz.
     let locals = [(''accel_angle_x'', atan2 acy acz * 180 / pi)] in
     bind_result (dict_get accel_data ''AcX_g'') (\<lambda>acx.
     bind_result (dict_get accel_data ''AcY_g'') (\<lambda>acy.
     bind_result (dict_get accel_data ''AcZ_g'') (\<lambda>acz.
     let locals = dict_set ''accel_angle_y''
                    (atan2 (- acx) (sqrt (acy ^ 2 + acz ^ 2)) * 180 / pi) locals in
     bind_result (load_local locals ''angle_x'') (\<lambda>angle_x.
     bind_result (dict_get gyro_data ''GyX_deg'') (\<lambda>gyx.
     bind_result (load_local locals ''accel_angle_x'') (\<lambda>accel_angle_x.
     let locals = dict_set ''angle_x''
                    (a * (angle_x + gyx * dt) + (1 - a) * accel_angle_x) locals in
     bind_result (load_local locals ''angle_y'') (\<lambda>angle_y.
     bind_result (dict_get gyro_data ''GyY_deg'') (\<lambda>gyy.
     bind_result (load_local locals ''accel_angle_y'') (\<lambda>accel_angle_y.
     let locals = dict_set ''angle_y''
                    (a * (angle_y + gyy * dt) + (1 - a) * accel_angle_y) locals in
     bind_result (load_local locals ''angle_x'') (\<lambda>angle_x.
     bind_result (load_local locals ''angle_y'') (\<lambda>angle_y.
     Inr [(''angle_x'', angle_x), (''angle_y'', angle_y)]))))))))))))))"

subsection \<open>Stating the averages\<close>

text \<open>
  \<open>raw_at bus n0 stride i slot reg\<close> is the raw value that the loop pass number \<open>i\<close>
  (counted from 0) reads from \<open>reg\<close> as its read number \<open>slot\<close>, when \<open>n0\<close> bus reads
  were made before the loop and each pass makes \<open>stride\<close> reads. \<open>mean f samples\<close> is the
  arithmetic mean of \<open>f 0, \<dots>, f (samples - 1)\<close>.
\<close>

definition raw_at :: "i2c \<Rightarrow> nat \<Rightarrow> nat \<Rightarrow> nat \<Rightarrow> nat \<Rightarrow> nat \<Rightarrow> real" where
  "raw_at bus n0 stride i slot reg = real_of_int (read_raw_data bus (n0 + stride * i + slot) reg)"

definition mean :: "(nat \<Rightarrow> real) \<Rightarrow> int \<Rightarrow> real" where
  "mean f samples = (\<Sum>i<nat samples. f i) / real_of_int samples"

text \<open>
  The floating-point running sum of \<open>f 0, \<dots>, f (k - 1)\<close>, added in this order to an
  accumulator that starts at 0, and the mean it gives: every sum and the final
  quotient are rounded by \<open>fl\<close>.
\<close>

fun fsum :: "(real \<Rightarrow> real) \<Rightarrow> (nat \<Rightarrow> real) \<Rightarrow> nat \<Rightarrow> real" where
  "fsum fl f 0 = 0"
| "fsum fl f (Suc k) = fl (fsum fl f k + f k)"

definition fmean :: "(real \<Rightarrow> real) \<Rightarrow> (nat \<Rightarrow> real) \<Rightarrow> int \<Rightarrow> real" where
  "fmean fl f samples = fl (fsum fl f (nat samples) / real_of_int samples)"

text \<open>
  The accumulators of \<^verbatim>\<open>get_values\<close> written as running sums: what \<^verbatim>\<open>values\<close> is shown
  below to hold after \<open>k\<close> passes of the loop (for \<open>k \<ge> 1\<close>), when \<open>n0\<close> bus reads were made
  before.
\<close>

definition accumulators :: "(real \<Rightarrow> real) \<Rightarrow> i2c \<Rightarrow> mpu6050 \<Rightarrow> nat \<Rightarrow> nat \<Rightarrow> dict" where
  "accumulators fl bus self n0 k =
     [(''GyX'', fsum fl (\<lambda>i. fl (raw_at bus n0 7 i 3 GYRO_XOUT_H - ax_x (gyro_offsets self))) k),
      (''GyY'', fsum fl (\<lambda>i. fl (raw_at bus n0 7 i 4 (GYRO_XOUT_H + 2) - ax_y (gyro_offsets self))) k),
      (''GyZ'', fsum fl (\<lambda>i. fl (raw_at bus n0 7 i 5 (GYRO_XOUT_H + 4) - ax_z (gyro_offsets self))) k),
      (''Tmp'', fsum fl (\<lambda>i. fl (fl (raw_at bus n0 7 i 6 TEMP_OUT_H / 340) + fl (3653 / 100))) k),
      (''AcX'', fsum fl (\<lambda>i. fl (raw_at bus n0 7 i 0 ACCEL_XOUT_H - ax_x (accel_offsets self))) k),
      (''AcY'', fsum fl (\<lambda>i. fl (raw_at bus n0 7 i 1 (ACCEL_XOUT_H + 2) - ax_y (accel_offsets self))) k),
      (''AcZ'', fsum fl (\<lambda>i. fl (raw_at bus n0 7 i 2 (ACCEL_XOUT_H + 4) - ax_z (accel_offsets self))) k),
      (''GyX_deg'', fsum fl (\<lambda>i.
         fl (fl (raw_at bus n0 7 i 3 GYRO_XOUT_H - ax_x (gyro_offsets self)) / 131)) k),
      (''GyY_deg'', fsum fl (\<lambda>i.
         fl (fl (raw_at bus n0 7 i 4 (GYRO_XOUT_H + 2) - ax_y (gyro_offsets self)) / 131)) k),
      (''GyZ_deg'', fsum fl (\<lambda>i.
         fl (fl (raw_at bus n0 7 i 5 (GYRO_XOUT_H + 4) - ax_z (gyro_offsets self)) / 131)) k),
      (''AcX_g'', fsum fl (\<lambda>i.
         fl (fl (raw_at bus n0 7 i 0 ACCEL_XOUT_H - ax_x (accel_offsets self)) / 16384)) k),
      (''AcY_g'', fsum fl (\<lambda>i.
         fl (fl (raw_at bus n0 7 i 1 (ACCEL_XOUT_H + 2) - ax_y (accel_offsets self)) / 16384)) k),
      (''AcZ_g'', fsum fl (\<lambda>i.
         fl (fl (raw_at bus n0 7 i 2 (ACCEL_XOUT_H + 4) - ax_z (accel_offsets self)) / 16384)) k)]"

subsection \<open>Double precision\<close>

text \<open>
  Rounding to the nearest integer, ties to the even one, and with it the rounding of a
  real to the nearest number with a 53-bit significand, which is what an IEEE double
  precision operation returns for an exact result \<open>x\<close> in the normal range (overflow and
  subnormal numbers are not modelled; no value below comes near either).
\<close>

definition round_half_even :: "real \<Rightarrow> int" where
  "round_half_even q =
     (let f = \<lfloor>q\<rfloor>; r = q - of_int f
      in if r < 1 / 2 then f else if r > 1 / 2 then f + 1 else if even f then f else f + 1)"

definition binary64 :: "real \<Rightarrow> real" where
  "binary64 x =
     (if x = 0 then 0
      else let e = \<lfloor>log 2 \<bar>x\<bar>\<rfloor> - 52
           in of_int (round_half_even (x / 2 powr of_int e)) * 2 powr of_int e)"

text \<open>A sensor whose registers all hold the same two bytes, and a field of a result.\<close>

definition constant_bus :: "byte \<times> byte \<Rightarrow> i2c" where
  "constant_bus r n reg = r"

definition field :: "string \<Rightarrow> error + dict \<Rightarrow> real option" where
  "field k r = (case r of Inl e \<Rightarrow> None | Inr d \<Rightarrow> map_of d k)"

section \<open>The display loop of \<^verbatim>\<open>motion_control.py\<close>\<close>

definition low_pass_filter :: "real \<Rightarrow> real \<Rightarrow> real \<Rightarrow> real" where
  "low_pass_filter new_value prev_value a = a * prev_value + (1 - a) * new_value"

definition alpha :: real where "alpha = 8 / 10"
definition beta :: real where "beta = 95 / 100"

definition LEFT_THRESHOLD :: real where "LEFT_THRESHOLD = - 15"
definition RIGHT_THRESHOLD :: real where "RIGHT_THRESHOLD = 15"
definition TURN_THRESHOLD :: real where "TURN_THRESHOLD = 20"
definition FORWARD_THRESHOLD :: real where "FORWARD_THRESHOLD = 15"
definition BACKWARD_THRESHOLD :: real where "BACKWARD_THRESHOLD = - 15"
definition DEAD_ZONE :: real where "DEAD_ZONE = 10"

text \<open>Each \<^theory_text>\<open>let\<close> is one of the three \<^verbatim>\<open>if\<close> statements assigning \<^verbatim>\<open>direction\<close>.\<close>

definition get_direction :: "real \<Rightarrow> real \<Rightarrow> real \<Rightarrow> string" where
  "get_direction angle_x angle_y angle_z =
     (let direction = ''STOP'';
          direction =
            (if angle_y > DEAD_ZONE \<and> angle_y > FORWARD_THRESHOLD then ''FORWARD''
             else if angle_y < - DEAD_ZONE \<and> angle_y < BACKWARD_THRESHOLD then ''BACKWARD''
             else direction);
          direction =
            (if angle_x < - DEAD_ZONE \<and> angle_x < LEFT_THRESHOLD then ''LEFT''
             else if angle_x > DEAD_ZONE \<and> angle_x > RIGHT_THRESHOLD then ''RIGHT''
             else direction);
          direction =
            (if \<bar>angle_z\<bar> > DEAD_ZONE \<and> \<bar>angle_z\<bar> > TURN_THRESHOLD
             then (if angle_z > 0 then ''ROTATE_RIGHT'' else ''ROTATE_LEFT'')
             else direction)
      in direction)"

text \<open>
  The variables the loop keeps from one cycle to the next: the module-level
  \<^verbatim>\<open>prev_angles\<close> and \<^verbatim>\<open>prev_time\<close>, and the locals of
  \<^verbatim>\<open>start_direction_display\<close>.
\<close>

record loop_state =
  prev_angles :: axes
  prev_time :: int
  prev_data :: dict
  prev_direction :: string
  direction_count :: nat

text \<open>Lines 15, 16 and 59 to 61; \<open>t0\<close> is what \<^verbatim>\<open>time.ticks_ms()\<close> returned at line 16.\<close>

definition initial_loop_state :: "int \<Rightarrow> loop_state" where
  "initial_loop_state t0 =
     \<lparr>prev_angles = zero_axes, prev_time = t0, prev_data = [],
      prev_direction = ''STOP'', direction_count = 0\<rparr>"

text \<open>Lines 78 to 81: every key of \<^verbatim>\<open>data\<close> that \<^verbatim>\<open>prev_data\<close> has is filtered.\<close>

definition low_pass_step :: "dict \<Rightarrow> dict \<Rightarrow> dict" where
  "low_pass_step prev data =
     (if prev \<noteq> []
      then map (\<lambda>(key, v). case map_of prev key of
                              Some p \<Rightarrow> (key, low_pass_filter v p alpha)
                            | None \<Rightarrow> (key, v)) data
      else data)"

text \<open>Lines 86 to 93, the subscripts in the order they are evaluated.\<close>

definition update_angles :: "axes \<Rightarrow> dict \<Rightarrow> real \<Rightarrow> error + axes" where
  "update_angles prev data dt =
     bind_result (dict_get data ''AcY_g'') (\<lambda>acy.
     bind_result (dict_get data ''AcZ_g'') (\<lambda>acz.
     let accel_angle_x = atan2 acy acz * 180 / pi in
     bind_result (dict_get data ''AcX_g'') (\<lambda>acx.
     bind_result (dict_get data ''AcY_g'') (\<lambda>acy.
     bind_result (dict_get data ''AcZ_g'') (\<lambda>acz.
     let accel_angle_y = atan2 (- acx) (sqrt (acy ^ 2 + acz ^ 2)) * 180 / pi in
     bind_result (dict_get data ''GyX_deg'') (\<lambda>gyx.
     let angle_x = beta * (ax_x prev + gyx * dt) + (1 - beta) * accel_angle_x in
     bind_result (dict_get data ''GyY_deg'') (\<lambda>gyy.
     let angle_y = beta * (ax_y prev + gyy * dt) + (1 - beta) * accel_angle_y in
     bind_result (dict_get data ''GyZ_deg'') (\<lambda>gyz.
     let angle_z = ax_z prev + gyz * dt in
     Inr \<lparr>ax_x = angle_x, ax_y = angle_y, ax_z = angle_z\<rparr>))))))))"

text \<open>Lines 102 to 106.\<close>

definition debounce :: "loop_state \<Rightarrow> string \<Rightarrow> loop_state" where
  "debounce st direction =
     (if direction = prev_direction st
      then st\<lparr>direction_count := direction_count st + 1\<rparr>
      else st\<lparr>direction_count := 0, prev_direction := direction\<rparr>)"

text \<open>
  What line 130 prints: the label, the arrow after it (up U+2191, down U+2193, left
  U+2190, right U+2192, anticlockwise U+21BA, clockwise U+21BB, or nothing) and the three
  angles. The layout of the line and the rounding of the angles to one decimal are not
  modelled.
\<close>

datatype indicator = NoArrow | ArrowUp | ArrowDown | ArrowLeft | ArrowRight | ArrowACW | ArrowCW

record display_line =
  direction_display :: string
  indicator_display :: indicator
  angle_display :: axes

text \<open>Lines 109 to 130: a line is printed when the count has reached 2.\<close>

definition display :: "loop_state \<Rightarrow> string \<Rightarrow> axes \<Rightarrow> display_line option" where
  "display st direction angles =
     (if direction_count st \<ge> 2
      then Some \<lparr>direction_display = direction,
                  indicator_display =
                    (if direction = ''FORWARD'' then ArrowUp
                     else if direction = ''BACKWARD'' then ArrowDown
                     else if direction = ''LEFT'' then ArrowLeft
                     else if direction = ''RIGHT'' then ArrowRight
                     else if direction = ''ROTATE_LEFT'' then ArrowACW
                     else if direction = ''ROTATE_RIGHT'' then ArrowCW
                     else NoArrow),
                  angle_display = angles\<rparr>
      else None)"

text \<open>Lines 99 to 130: classify the angles, count, print.\<close>

definition classify_and_display :: "loop_state \<Rightarrow> axes \<Rightarrow> loop_state \<times> display_line option" where
  "classify_and_display st angles =
     (let direction = get_direction (ax_x angles) (ax_y angles) (ax_z angles);
          st' = debounce st direction
      in (st', display st' direction angles))"

text \<open>
  One pass of the body of \<^verbatim>\<open>while True\<close> (lines 69 to 135) after the two calls into the
  outside: \<open>current_time\<close> is what \<^verbatim>\<open>time.ticks_ms()\<close> returned and \<open>data\<close> what
  \<^verbatim>\<open>mpu.get_values(samples=5, delay=0.01)\<close> returned.
\<close>

definition loop_body :: "int \<Rightarrow> dict \<Rightarrow> loop_state \<Rightarrow> error + loop_state \<times> display_line option" where
  "loop_body current_time data st =
     (let dt = real_of_int (current_time - prev_time st) / 1000;
          st = st\<lparr>prev_time := current_time\<rparr>;
          data = low_pass_step (prev_data st) data
      in if dict_contains ''AcX_g'' data
         then bind_result (update_angles (prev_angles st) data dt) (\<lambda>angles.
                case classify_and_display (st\<lparr>prev_angles := angles\<rparr>) angles of
                  (st', shown) \<Rightarrow> Inr (st'\<lparr>prev_data := data\<rparr>, shown))
         else Inr (st, None))"

text \<open>One whole pass: the clock is read, then the driver, then the body runs.\<close>

definition loop_iteration ::
  "(real \<Rightarrow> real) \<Rightarrow> i2c \<Rightarrow> int \<Rightarrow> mpu6050 \<times> loop_state
   \<Rightarrow> error + (mpu6050 \<times> loop_state) \<times> display_line option" where
  "loop_iteration fl bus current_time ms =
     (case ms of (mpu, st) \<Rightarrow>
        (case get_values fl bus mpu 5 of
           (Inl e, mpu') \<Rightarrow> Inl e
         | (Inr data, mpu') \<Rightarrow>
             bind_result (loop_body current_time data st) (\<lambda>(st', shown). Inr ((mpu', st'), shown))))"

text \<open>
  The classifier part of consecutive passes, given the angle triple each pass computed:
  what each pass printed, in order.
\<close>

fun display_run :: "loop_state \<Rightarrow> axes list \<Rightarrow> display_line option list" where
  "display_run st [] = []"
| "display_run st (angles # rest) =
     (case classify_and_display st angles of (st', shown) \<Rightarrow> shown # display_run st' rest)"

definition label_of :: "axes \<Rightarrow> string" where
  "label_of angles = get_direction (ax_x angles) (ax_y angles) (ax_z angles)"

definition shown_label :: "display_line option \<Rightarrow> string option" where
  "shown_label = map_option direction_display"

definition tilt :: "real \<Rightarrow> real \<Rightarrow> real \<Rightarrow> axes" where
  "tilt ax ay az = \<lparr>ax_x = ax, ax_y = ay, ax_z = az\<rparr>"

section \<open>Properties of the register interface\<close>

lemma value_eq:
  "push_bit 8 (uint (b0::byte)) OR uint (b1::byte) = 256 * uint b0 + uint b1"
proof -
  have "push_bit 8 (uint b0) + uint b1 = push_bit 8 (uint b0) OR uint b1"
    by (rule disjunctive_add_eq_or) (auto simp: bit_eq_iff bit_simps dest: bit_imp_le_length)
  then show ?thesis by (simp add: push_bit_eq_mult)
qed

lemma combine_alt: "combine b0 b1 = to_signed (256 * uint b0 + uint b1)"
  by (simp add: combine_def value_eq Let_def to_signed_def)

lemma uint_byte_bounds: "0 \<le> uint (b::byte) \<and> uint b < 256"
  using uint_bounded[of b] by simp

lemma to_signed_range:
  fixes x0 x1 :: int
  assumes "0 \<le> x0" "x0 < 256" "0 \<le> x1" "x1 < 256"
  shows "- 32768 \<le> to_signed (256 * x0 + x1) \<and> to_signed (256 * x0 + x1) \<le> 32767"
  using assms by (auto simp: to_signed_def)

lemma combine_range: "- 32768 \<le> combine b0 b1 \<and> combine b0 b1 \<le> 32767"
  unfolding combine_alt using uint_byte_bounds[of b0] uint_byte_bounds[of b1]
  by (intro to_signed_range) auto

lemma to_signed_mod:
  fixes x0 x1 :: int
  assumes "0 \<le> x0" "x0 < 256" "0 \<le> x1" "x1 < 256"
  shows "to_signed (256 * x0 + x1) mod 65536 = 256 * x0 + x1"
proof -
  have r: "0 \<le> 256 * x0 + x1" "256 * x0 + x1 < 65536" using assms by auto
  have "to_signed (256 * x0 + x1) mod 65536 = (256 * x0 + x1) mod 65536"
    by (simp add: to_signed_def mod_diff_right_eq)
  also have "\<dots> = 256 * x0 + x1" using r by (rule mod_pos_pos_trivial)
  finally show ?thesis .
qed

lemma split_256:
  fixes x0 x1 :: int
  assumes "0 \<le> x1" "x1 < 256"
  shows "(256 * x0 + x1) div 256 = x0 \<and> (256 * x0 + x1) mod 256 = x1"
  using assms by simp

lemma to_signed_inj:
  fixes x0 x1 y0 y1 :: int
  assumes x: "0 \<le> x0" "x0 < 256" "0 \<le> x1" "x1 < 256"
    and y: "0 \<le> y0" "y0 < 256" "0 \<le> y1" "y1 < 256"
    and e: "to_signed (256 * x0 + x1) = to_signed (256 * y0 + y1)"
  shows "x0 = y0 \<and> x1 = y1"
proof -
  have "256 * x0 + x1 = to_signed (256 * x0 + x1) mod 65536"
    by (rule to_signed_mod[OF x, symmetric])
  also have "\<dots> = to_signed (256 * y0 + y1) mod 65536"
    by (simp only: e)
  also have "\<dots> = 256 * y0 + y1"
    by (rule to_signed_mod[OF y])
  finally have eq: "256 * x0 + x1 = 256 * y0 + y1" .
  have "x0 = (256 * x0 + x1) div 256" "x1 = (256 * x0 + x1) mod 256"
    using split_256[OF x(3,4), of x0] by simp_all
  moreover have "y0 = (256 * y0 + y1) div 256" "y1 = (256 * y0 + y1) mod 256"
    using split_256[OF y(3,4), of y0] by simp_all
  ultimately show ?thesis by (metis eq)
qed

lemma combine_inj: "combine a0 a1 = combine b0 b1 \<Longrightarrow> a0 = b0 \<and> a1 = b1"
proof -
  assume h: "combine a0 a1 = combine b0 b1"
  have a: "0 \<le> uint a0" "uint a0 < 256" "0 \<le> uint a1" "uint a1 < 256"
    using uint_byte_bounds[of a0] uint_byte_bounds[of a1] by simp_all
  have b: "0 \<le> uint b0" "uint b0 < 256" "0 \<le> uint b1" "uint b1 < 256"
    using uint_byte_bounds[of b0] uint_byte_bounds[of b1] by simp_all
  have "to_signed (256 * uint a0 + uint a1) = to_signed (256 * uint b0 + uint b1)"
    using h by (simp only: combine_alt)
  then have "uint a0 = uint b0 \<and> uint a1 = uint b1"
    by (rule to_signed_inj[OF a b])
  then show ?thesis by (simp add: word_uint_eq_iff)
qed

lemma uint_hi:
  "uint (word_of_int ((v mod 65536) div 256) :: byte) = (v mod 65536) div 256"
proof -
  have "0 \<le> v mod 65536" "v mod 65536 < 256 * 256" by simp_all
  then have "0 \<le> (v mod 65536) div 256" "(v mod 65536) div 256 < 256"
    by (simp_all add: div_less_iff_less_mult pos_imp_zdiv_nonneg_iff)
  then show ?thesis by (simp add: uint_word_of_int take_bit_eq_mod)
qed

lemma uint_lo: "uint (word_of_int (v mod 256) :: byte) = v mod 256"
  by (simp add: uint_word_of_int take_bit_eq_mod)

lemma mod_256_mod: "(v::int) mod 256 = (v mod 65536) mod 256"
  by (simp add: mod_mod_cancel)

lemma combine_encode_be:
  assumes "- 32768 \<le> v" "v \<le> 32767"
  shows "(case encode_be v of (b0, b1) \<Rightarrow> combine b0 b1) = v"
proof -
  define w where "w = v mod 65536"
  have w: "w = (if v < 0 then v + 65536 else v)"
  proof (cases "v < 0")
    case True
    have "0 \<le> v + 65536" "v + 65536 < 65536" using assms True by simp_all
    then have "(v + 65536) mod 65536 = v + 65536" by (rule mod_pos_pos_trivial)
    then show ?thesis using True by (simp add: w_def)
  next
    case False
    then have "0 \<le> v" "v < 65536" using assms by simp_all
    then have "v mod 65536 = v" by (rule mod_pos_pos_trivial)
    then show ?thesis using False by (simp add: w_def)
  qed
  have "(case encode_be v of (b0, b1) \<Rightarrow> combine b0 b1)
        = to_signed (256 * (w div 256) + (v mod 256))"
    unfolding encode_be_def prod.case combine_alt uint_hi uint_lo w_def ..
  also have "\<dots> = to_signed (256 * (w div 256) + w mod 256)"
    using mod_256_mod[of v] by (simp only: w_def)
  also have "\<dots> = to_signed w" by simp
  also have "\<dots> = v" using assms by (auto simp: w to_signed_def)
  finally show ?thesis .
qed

lemma combine_bij: "bij_betw (\<lambda>(b0, b1). combine b0 b1) UNIV {- 32768 .. 32767}"
proof (rule bij_betw_imageI)
  show "inj_on (\<lambda>(b0, b1). combine b0 b1) UNIV"
    by (rule inj_onI) (auto dest: combine_inj)
  show "(\<lambda>(b0, b1). combine b0 b1) ` UNIV = {- 32768 .. 32767}"
  proof (rule set_eqI, rule iffI)
    fix v assume "v \<in> (\<lambda>(b0, b1). combine b0 b1) ` UNIV"
    then show "v \<in> {- 32768 .. 32767}" using combine_range by auto
  next
    fix v :: int assume "v \<in> {- 32768 .. 32767}"
    then have "(\<lambda>(b0, b1). combine b0 b1) (encode_be v) = v"
      using combine_encode_be[of v] by simp
    then show "v \<in> (\<lambda>(b0, b1). combine b0 b1) ` UNIV"
      by (metis rangeI)
  qed
qed

text \<open>
  C3. The combination step of \<^verbatim>\<open>read_raw_data\<close> is a bijection from the pairs of bytes
  onto the integers from -32768 to 32767. For every pair it returns
  \<^verbatim>\<open>(byte0 << 8) | byte1\<close> when that is at most 32767 and that value minus 65536
  otherwise, so decoding the big-endian encoding of a value \<open>v\<close> of that range gives \<open>v\<close>
  back; the bytes FF FF give -1, 7F FF give 32767 and 80 00 give -32768.
\<close>

theorem read_raw_data_bijection:
  assumes "- 32768 \<le> v" and "v \<le> 32767"
  shows "bij_betw (\<lambda>(b0, b1). combine b0 b1) UNIV {- 32768 .. 32767}
       \<and> combine b0 b1 =
           (if push_bit 8 (uint b0) OR uint b1 \<le> 32767
            then push_bit 8 (uint b0) OR uint b1
            else (push_bit 8 (uint b0) OR uint b1) - 65536)
       \<and> read_raw_data bus n reg = combine (fst (bus n reg)) (snd (bus n reg))
       \<and> (case encode_be v of (b0, b1) \<Rightarrow> combine b0 b1) = v
       \<and> combine 0xFF 0xFF = - 1 \<and> combine 0x7F 0xFF = 32767 \<and> combine 0x80 0x00 = - 32768"
proof -
  have "combine 0xFF 0xFF = - 1" "combine 0x7F 0xFF = 32767" "combine 0x80 0x00 = - 32768"
    by (simp_all add: combine_def)
  moreover have "read_raw_data bus n reg = combine (fst (bus n reg)) (snd (bus n reg))"
    by (simp add: read_raw_data_def split: prod.splits)
  moreover have "combine b0 b1 =
           (if push_bit 8 (uint b0) OR uint b1 \<le> 32767
            then push_bit 8 (uint b0) OR uint b1
            else (push_bit 8 (uint b0) OR uint b1) - 65536)"
    by (simp add: combine_def Let_def)
  ultimately show ?thesis
    using combine_bij combine_encode_be[OF assms] by blast
qed

theorem read_raw_data_bijection_witness:
  "(- 32768 \<le> (- 1 :: int) \<and> (- 1 :: int) \<le> 32767)
   \<and> (case encode_be (- 1) of (b0, b1) \<Rightarrow> combine b0 b1) = - 1"
proof -
  have h1: "- 32768 \<le> (- 1 :: int)" and h2: "(- 1 :: int) \<le> 32767" by simp_all
  show ?thesis using read_raw_data_bijection[OF h1 h2] h1 h2 by blast
qed

section \<open>Properties of the classifier and the smoothing filter\<close>

lemmas thresholds = DEAD_ZONE_def TURN_THRESHOLD_def FORWARD_THRESHOLD_def
  BACKWARD_THRESHOLD_def LEFT_THRESHOLD_def RIGHT_THRESHOLD_def

lemma get_direction_yaw:
  assumes "\<bar>az\<bar> > DEAD_ZONE" "\<bar>az\<bar> > TURN_THRESHOLD"
  shows "get_direction ax ay az = (if az > 0 then ''ROTATE_RIGHT'' else ''ROTATE_LEFT'')"
  using assms by (simp add: get_direction_def Let_def)

lemma get_direction_labels:
  "get_direction ax ay az \<in>
     {''STOP'', ''FORWARD'', ''BACKWARD'', ''LEFT'', ''RIGHT'', ''ROTATE_LEFT'', ''ROTATE_RIGHT''}"
  by (simp add: get_direction_def Let_def)

text \<open>
  C2. \<^verbatim>\<open>get_direction\<close> returns, for every triple of angles, one of the seven labels
  STOP, FORWARD, BACKWARD, LEFT, RIGHT, ROTATE_LEFT, ROTATE_RIGHT; and whenever the
  absolute value of \<open>angle_z\<close> exceeds both \<open>DEAD_ZONE\<close> (10) and \<open>TURN_THRESHOLD\<close> (20)
  the result is ROTATE_RIGHT for a positive \<open>angle_z\<close> and ROTATE_LEFT otherwise, whatever
  \<open>angle_x\<close> and \<open>angle_y\<close> are.
\<close>

theorem get_direction_total_yaw_wins:
  assumes "\<bar>az\<bar> > DEAD_ZONE" and "\<bar>az\<bar> > TURN_THRESHOLD"
  shows "get_direction ax ay az = (if az > 0 then ''ROTATE_RIGHT'' else ''ROTATE_LEFT'')
       \<and> get_direction bx by' bz \<in>
           {''STOP'', ''FORWARD'', ''BACKWARD'', ''LEFT'', ''RIGHT'',
            ''ROTATE_LEFT'', ''ROTATE_RIGHT''}
       \<and> DEAD_ZONE = 10 \<and> TURN_THRESHOLD = 20"
  using get_direction_yaw[OF assms] get_direction_labels[of bx by' bz]
  by (simp add: thresholds)

theorem get_direction_total_yaw_wins_witness:
  "\<bar>25\<bar> > DEAD_ZONE \<and> \<bar>25\<bar> > TURN_THRESHOLD \<and> get_direction (- 20) 20 25 = ''ROTATE_RIGHT''"
proof -
  have h1: "\<bar>25\<bar> > DEAD_ZONE" by (simp add: DEAD_ZONE_def)
  have h2: "\<bar>25\<bar> > TURN_THRESHOLD" by (simp add: TURN_THRESHOLD_def)
  show ?thesis
    using get_direction_total_yaw_wins[OF h1 h2, of "- 20" 20, THEN conjunct1] h1 h2 by simp
qed

text \<open>
  C6. Every threshold comparison of \<^verbatim>\<open>get_direction\<close> is strict. With the other two
  angles at 0, the label is FORWARD exactly for \<open>angle_y > 15\<close>, BACKWARD exactly for
  \<open>angle_y < -15\<close>, LEFT exactly for \<open>angle_x < -15\<close>, RIGHT exactly for \<open>angle_x > 15\<close>
  and a rotation exactly for \<open>|angle_z| > 20\<close>; so \<^verbatim>\<open>get_direction(0, 15, 0)\<close> is STOP,
  and an angle equal to its threshold (\<open>angle_y = \<plusminus>15\<close>, \<open>angle_x = \<plusminus>15\<close>,
  \<open>angle_z = \<plusminus>20\<close>) gives the same label as that angle at 0 does, whatever the other
  two angles are.
\<close>

theorem get_direction_strict_thresholds:
  "get_direction 0 15 0 = ''STOP'' \<and> get_direction 0 (- 15) 0 = ''STOP''
   \<and> get_direction 15 0 0 = ''STOP'' \<and> get_direction (- 15) 0 0 = ''STOP''
   \<and> get_direction 0 0 20 = ''STOP'' \<and> get_direction 0 0 (- 20) = ''STOP''
   \<and> get_direction 0 ay 0 =
        (if ay > 15 then ''FORWARD'' else if ay < - 15 then ''BACKWARD'' else ''STOP'')
   \<and> get_direction ax 0 0 =
        (if ax < - 15 then ''LEFT'' else if ax > 15 then ''RIGHT'' else ''STOP'')
   \<and> get_direction 0 0 az =
        (if \<bar>az\<bar> > 20 then (if az > 0 then ''ROTATE_RIGHT'' else ''ROTATE_LEFT'')
         else ''STOP'')
   \<and> get_direction bx 15 bz = get_direction bx 0 bz
   \<and> get_direction bx (- 15) bz = get_direction bx 0 bz
   \<and> get_direction 15 cy cz = get_direction 0 cy cz
   \<and> get_direction (- 15) cy cz = get_direction 0 cy cz
   \<and> get_direction dx dy 20 = get_direction dx dy 0
   \<and> get_direction dx dy (- 20) = get_direction dx dy 0"
  by (simp add: get_direction_def Let_def thresholds)

text \<open>
  C7. \<^verbatim>\<open>low_pass_filter(current, previous, alpha)\<close> is
  \<open>alpha * previous + (1 - alpha) * current\<close>: it returns \<open>current\<close> for \<open>alpha = 0\<close> and
  \<open>previous\<close> for \<open>alpha = 1\<close>. On the first cycle of the loop \<^verbatim>\<open>prev_data\<close> is empty
  and the reading is used as it is.
\<close>

theorem low_pass_filter_blend:
  "low_pass_filter current previous a = a * previous + (1 - a) * current
   \<and> low_pass_filter current previous 0 = current
   \<and> low_pass_filter current previous 1 = previous
   \<and> prev_data (initial_loop_state t0) = []
   \<and> low_pass_step (prev_data (initial_loop_state t0)) data = data"
  by (simp add: low_pass_filter_def low_pass_step_def initial_loop_state_def)

section \<open>Properties of the driver\<close>

lemma load_local_angle_x:
  "load_local (dict_set ''accel_angle_y'' v [(''accel_angle_x'', w)]) ''angle_x''
   = Inl (NameError ''angle_x'')"
  by (simp add: load_local_def)

lemma apply_complementary_filter_no_math:
  "apply_complementary_filter mpu6050_globals accel_data gyro_data dt a
   = Inl (NameError ''math'')"
  by (simp add: apply_complementary_filter_def load_global_def mpu6050_globals_def
      bind_result_def)

lemma apply_complementary_filter_fails:
  "isl (apply_complementary_filter globals accel_data gyro_data dt a)"
  unfolding apply_complementary_filter_def Let_def load_local_angle_x
  by (simp add: bind_result_def split: sum.splits)

lemma apply_complementary_filter_unbound:
  "apply_complementary_filter (''math'' # mpu6050_globals)
     [(''AcX_g'', acx), (''AcY_g'', acy), (''AcZ_g'', acz)] gyro_data dt a
   = Inl (NameError ''angle_x'')"
  unfolding apply_complementary_filter_def Let_def load_local_angle_x
  by (simp add: bind_result_def load_global_def dict_get_def)

text \<open>
  C9. \<^verbatim>\<open>MPU6050.apply_complementary_filter\<close> never returns a result. In
  \<^verbatim>\<open>mpu6050.py\<close>, which does not import \<^verbatim>\<open>math\<close>, every call raises the name error
  for \<^verbatim>\<open>math\<close>; whatever names the module defined, the call would still raise; and were
  \<^verbatim>\<open>math\<close> defined and the accelerometer keys present, it would raise the name error for
  \<^verbatim>\<open>angle_x\<close>, read in its own first assignment.
\<close>

theorem apply_complementary_filter_never_returns:
  "apply_complementary_filter mpu6050_globals accel_data gyro_data dt a
     = Inl (NameError ''math'')
   \<and> isl (apply_complementary_filter globals accel_data gyro_data dt a)
   \<and> apply_complementary_filter (''math'' # mpu6050_globals)
        [(''AcX_g'', acx), (''AcY_g'', acy), (''AcZ_g'', acz)] gyro_data dt a
     = Inl (NameError ''angle_x'')"
  using apply_complementary_filter_no_math apply_complementary_filter_fails
    apply_complementary_filter_unbound by blast

text \<open>
  C10. With \<^verbatim>\<open>samples = 0\<close> the sampling loop of \<^verbatim>\<open>calibrate\<close> and of
  \<^verbatim>\<open>get_values\<close> runs zero times (no bus read is made) and the first division of the
  averaging step raises ZeroDivisionError; \<^verbatim>\<open>calibrate\<close> has then assigned no offset,
  so the object is as it was before the call.
\<close>

theorem zero_samples_raise:
  "calibrate bus self 0 = (Inl ZeroDivisionError, self)
   \<and> get_values fl bus self 0 = (Inl ZeroDivisionError, self)"
  by (simp add: calibrate_def get_values_def truediv_def initial_values_def bind_result_def)

lemma truediv_ok: "samples \<noteq> 0 \<Longrightarrow> truediv a samples = Inr (a / real_of_int samples)"
  by (simp add: truediv_def)

lemma calibrate_loop_add:
  "calibrate_loop bus (j + k) st = calibrate_loop bus k (calibrate_loop bus j st)"
proof (induction j arbitrary: st)
  case 0
  show ?case by simp
next
  case (Suc j)
  obtain n a g where st: "st = (n, a, g)" by (cases st)
  show ?case unfolding st by (simp add: Let_def Suc.IH)
qed

lemma calibrate_loop_Suc:
  "calibrate_loop bus (Suc k) st = calibrate_loop bus (Suc 0) (calibrate_loop bus k st)"
  using calibrate_loop_add[of bus k "Suc 0" st] by simp

lemma calibrate_loop_sums:
  "calibrate_loop bus k (n0, zero_axes, zero_axes) =
     (n0 + 6 * k,
      \<lparr>ax_x = (\<Sum>i<k. raw_at bus n0 6 i 0 ACCEL_XOUT_H),
       ax_y = (\<Sum>i<k. raw_at bus n0 6 i 1 (ACCEL_XOUT_H + 2)),
       ax_z = (\<Sum>i<k. raw_at bus n0 6 i 2 (ACCEL_XOUT_H + 4) - 16384)\<rparr>,
      \<lparr>ax_x = (\<Sum>i<k. raw_at bus n0 6 i 3 GYRO_XOUT_H),
       ax_y = (\<Sum>i<k. raw_at bus n0 6 i 4 (GYRO_XOUT_H + 2)),
       ax_z = (\<Sum>i<k. raw_at bus n0 6 i 5 (GYRO_XOUT_H + 4))\<rparr>)"
proof (induction k)
  case 0
  show ?case by (simp add: zero_axes_def)
next
  case (Suc k)
  show ?case
    unfolding calibrate_loop_Suc[of bus k] Suc.IH
    by (simp add: Let_def raw_at_def ACCEL_SCALE_MODIFIER_2G_def)
qed


lemma calibrate_eq:
  assumes "1 \<le> samples"
  shows "calibrate bus self samples =
     (Inr (),
      self\<lparr>reads := reads self + 6 * nat samples,
           accel_offsets :=
             \<lparr>ax_x = mean (\<lambda>i. raw_at bus (reads self) 6 i 0 ACCEL_XOUT_H) samples,
              ax_y = mean (\<lambda>i. raw_at bus (reads self) 6 i 1 (ACCEL_XOUT_H + 2)) samples,
              ax_z = mean (\<lambda>i. raw_at bus (reads self) 6 i 2 (ACCEL_XOUT_H + 4) - 16384) samples\<rparr>,
           gyro_offsets :=
             \<lparr>ax_x = mean (\<lambda>i. raw_at bus (reads self) 6 i 3 GYRO_XOUT_H) samples,
              ax_y = mean (\<lambda>i. raw_at bus (reads self) 6 i 4 (GYRO_XOUT_H + 2)) samples,
              ax_z = mean (\<lambda>i. raw_at bus (reads self) 6 i 5 (GYRO_XOUT_H + 4)) samples\<rparr>\<rparr>)"
proof -
  have ne: "samples \<noteq> 0" using assms by simp
  show ?thesis
    unfolding calibrate_def calibrate_loop_sums
    by (simp add: truediv_ok[OF ne] mean_def Let_def)
qed

lemma mean_const:
  assumes "1 \<le> samples"
  shows "mean (\<lambda>i. c) samples = c"
proof -
  have "real (nat samples) = real_of_int samples" using assms by simp
  then show ?thesis using assms by (simp add: mean_def)
qed

lemma raw_at_const:
  "raw_at (\<lambda>n. regs) n0 stride i slot reg
   = real_of_int (case regs reg of (d0, d1) \<Rightarrow> combine d0 d1)"
  by (simp add: raw_at_def read_raw_data_def)

text \<open>
  C5. For \<open>samples \<ge> 1\<close>, \<^verbatim>\<open>calibrate\<close> sets every offset to the arithmetic mean of the
  raw samples of its axis, with 16384 subtracted from each accelerometer Z sample before
  it is summed; when every pass reads the same registers, each offset is the value read
  (less 16384 for accelerometer Z), whatever \<open>samples\<close> is.
\<close>

theorem calibrate_offsets_are_means:
  assumes "1 \<le> samples"
  shows "calibrate bus self samples =
     (Inr (),
      self\<lparr>reads := reads self + 6 * nat samples,
           accel_offsets :=
             \<lparr>ax_x = mean (\<lambda>i. raw_at bus (reads self) 6 i 0 ACCEL_XOUT_H) samples,
              ax_y = mean (\<lambda>i. raw_at bus (reads self) 6 i 1 (ACCEL_XOUT_H + 2)) samples,
              ax_z = mean (\<lambda>i. raw_at bus (reads self) 6 i 2 (ACCEL_XOUT_H + 4) - 16384) samples\<rparr>,
           gyro_offsets :=
             \<lparr>ax_x = mean (\<lambda>i. raw_at bus (reads self) 6 i 3 GYRO_XOUT_H) samples,
              ax_y = mean (\<lambda>i. raw_at bus (reads self) 6 i 4 (GYRO_XOUT_H + 2)) samples,
              ax_z = mean (\<lambda>i. raw_at bus (reads self) 6 i 5 (GYRO_XOUT_H + 4)) samples\<rparr>\<rparr>)
   \<and> calibrate (\<lambda>n. regs) self samples =
     (Inr (),
      self\<lparr>reads := reads self + 6 * nat samples,
           accel_offsets :=
             \<lparr>ax_x = real_of_int (case regs ACCEL_XOUT_H of (d0, d1) \<Rightarrow> combine d0 d1),
              ax_y = real_of_int (case regs (ACCEL_XOUT_H + 2) of (d0, d1) \<Rightarrow> combine d0 d1),
              ax_z = real_of_int (case regs (ACCEL_XOUT_H + 4) of (d0, d1) \<Rightarrow> combine d0 d1) - 16384\<rparr>,
           gyro_offsets :=
             \<lparr>ax_x = real_of_int (case regs GYRO_XOUT_H of (d0, d1) \<Rightarrow> combine d0 d1),
              ax_y = real_of_int (case regs (GYRO_XOUT_H + 2) of (d0, d1) \<Rightarrow> combine d0 d1),
              ax_z = real_of_int (case regs (GYRO_XOUT_H + 4) of (d0, d1) \<Rightarrow> combine d0 d1)\<rparr>\<rparr>)"
proof (rule conjI)
  show "calibrate bus self samples = (Inr (),
      self\<lparr>reads := reads self + 6 * nat samples,
           accel_offsets :=
             \<lparr>ax_x = mean (\<lambda>i. raw_at bus (reads self) 6 i 0 ACCEL_XOUT_H) samples,
              ax_y = mean (\<lambda>i. raw_at bus (reads self) 6 i 1 (ACCEL_XOUT_H + 2)) samples,
              ax_z = mean (\<lambda>i. raw_at bus (reads self) 6 i 2 (ACCEL_XOUT_H + 4) - 16384) samples\<rparr>,
           gyro_offsets :=
             \<lparr>ax_x = mean (\<lambda>i. raw_at bus (reads self) 6 i 3 GYRO_XOUT_H) samples,
              ax_y = mean (\<lambda>i. raw_at bus (reads self) 6 i 4 (GYRO_XOUT_H + 2)) samples,
              ax_z = mean (\<lambda>i. raw_at bus (reads self) 6 i 5 (GYRO_XOUT_H + 4)) samples\<rparr>\<rparr>)"
    by (rule calibrate_eq[OF assms])
next
  show "calibrate (\<lambda>n. regs) self samples =
     (Inr (),
      self\<lparr>reads := reads self + 6 * nat samples,
           accel_offsets :=
             \<lparr>ax_x = real_of_int (case regs ACCEL_XOUT_H of (d0, d1) \<Rightarrow> combine d0 d1),
              ax_y = real_of_int (case regs (ACCEL_XOUT_H + 2) of (d0, d1) \<Rightarrow> combine d0 d1),
              ax_z = real_of_int (case regs (ACCEL_XOUT_H + 4) of (d0, d1) \<Rightarrow> combine d0 d1) - 16384\<rparr>,
           gyro_offsets :=
             \<lparr>ax_x = real_of_int (case regs GYRO_XOUT_H of (d0, d1) \<Rightarrow> combine d0 d1),
              ax_y = real_of_int (case regs (GYRO_XOUT_H + 2) of (d0, d1) \<Rightarrow> combine d0 d1),
              ax_z = real_of_int (case regs (GYRO_XOUT_H + 4) of (d0, d1) \<Rightarrow> combine d0 d1)\<rparr>\<rparr>)"
    unfolding calibrate_eq[OF assms] raw_at_const mean_const[OF assms] ..
qed

theorem calibrate_offsets_are_means_witness:
  "(1::int) \<le> 3 \<and>
   calibrate (\<lambda>n reg. if reg = ACCEL_XOUT_H + 4 then (0x40, 0x05) else (0xFF, 0xFE))
      \<lparr>reads = 0, accel_offsets = zero_axes, gyro_offsets = zero_axes\<rparr> 3 =
     (Inr (), \<lparr>reads = 18, accel_offsets = \<lparr>ax_x = - 2, ax_y = - 2, ax_z = 5\<rparr>,
                gyro_offsets = \<lparr>ax_x = - 2, ax_y = - 2, ax_z = - 2\<rparr>\<rparr>)"
proof -
  have h: "(1::int) \<le> 3" by simp
  have c: "combine 0x40 0x05 = 16389" "combine 0xFF 0xFE = - 2" by (simp_all add: combine_def)
  show ?thesis
    using calibrate_offsets_are_means[OF h, THEN conjunct2,
        of "\<lambda>reg. if reg = ACCEL_XOUT_H + 4 then (0x40, 0x05) else (0xFF, 0xFE)"
           "\<lparr>reads = 0, accel_offsets = zero_axes, gyro_offsets = zero_axes\<rparr>"]
    by (simp add: c ACCEL_XOUT_H_def GYRO_XOUT_H_def)
qed

subsection \<open>The sample aggregator\<close>

lemma get_values_loop_Suc:
  "get_values_loop fl bus self (Suc k) n vs =
     (case get_values_loop fl bus self k n vs of
        (Inl e, m) \<Rightarrow> (Inl e, m)
      | (Inr v, m) \<Rightarrow> get_values_loop fl bus self (Suc 0) m v)"
proof (induction k arbitrary: n vs)
  case 0
  show ?case by (simp split: sum.splits)
next
  case (Suc k)
  show ?case
  proof (cases "get_values_body fl bus self n vs")
    case (Inl e)
    then show ?thesis by simp
  next
    case (Inr v)
    have "get_values_loop fl bus self (Suc (Suc k)) n vs
          = get_values_loop fl bus self (Suc k) (n + 7) v"
      using Inr by simp
    also have "\<dots> = (case get_values_loop fl bus self k (n + 7) v of
        (Inl e, m) \<Rightarrow> (Inl e, m)
      | (Inr v, m) \<Rightarrow> get_values_loop fl bus self (Suc 0) m v)"
      by (rule Suc.IH)
    also have "get_values_loop fl bus self k (n + 7) v = get_values_loop fl bus self (Suc k) n vs"
      using Inr by simp
    finally show ?thesis .
  qed
qed

lemma body_full:
  "get_values_body fl bus self n
     [(''GyX'', v1), (''GyY'', v2), (''GyZ'', v3), (''Tmp'', v4),
      (''AcX'', v5), (''AcY'', v6), (''AcZ'', v7),
      (''GyX_deg'', v8), (''GyY_deg'', v9), (''GyZ_deg'', v10),
      (''AcX_g'', v11), (''AcY_g'', v12), (''AcZ_g'', v13)] =
   Inr [(''GyX'', fl (v1 + fl (raw_at bus n 7 0 3 GYRO_XOUT_H - ax_x (gyro_offsets self)))),
        (''GyY'', fl (v2 + fl (raw_at bus n 7 0 4 (GYRO_XOUT_H + 2) - ax_y (gyro_offsets self)))),
        (''GyZ'', fl (v3 + fl (raw_at bus n 7 0 5 (GYRO_XOUT_H + 4) - ax_z (gyro_offsets self)))),
        (''Tmp'', fl (v4 + fl (fl (raw_at bus n 7 0 6 TEMP_OUT_H / 340) + fl (3653 / 100)))),
        (''AcX'', fl (v5 + fl (raw_at bus n 7 0 0 ACCEL_XOUT_H - ax_x (accel_offsets self)))),
        (''AcY'', fl (v6 + fl (raw_at bus n 7 0 1 (ACCEL_XOUT_H + 2) - ax_y (accel_offsets self)))),
        (''AcZ'', fl (v7 + fl (raw_at bus n 7 0 2 (ACCEL_XOUT_H + 4) - ax_z (accel_offsets self)))),
        (''GyX_deg'', fl (v8 + fl (fl (raw_at bus n 7 0 3 GYRO_XOUT_H - ax_x (gyro_offsets self)) / 131))),
        (''GyY_deg'', fl (v9 + fl (fl (raw_at bus n 7 0 4 (GYRO_XOUT_H + 2) - ax_y (gyro_offsets self)) / 131))),
        (''GyZ_deg'', fl (v10 + fl (fl (raw_at bus n 7 0 5 (GYRO_XOUT_H + 4) - ax_z (gyro_offsets self)) / 131))),
        (''AcX_g'', fl (v11 + fl (fl (raw_at bus n 7 0 0 ACCEL_XOUT_H - ax_x (accel_offsets self)) / 16384))),
        (''AcY_g'', fl (v12 + fl (fl (raw_at bus n 7 0 1 (ACCEL_XOUT_H + 2) - ax_y (accel_offsets self)) / 16384))),
        (''AcZ_g'', fl (v13 + fl (fl (raw_at bus n 7 0 2 (ACCEL_XOUT_H + 4) - ax_z (accel_offsets self)) / 16384)))]"
  by (simp add: get_values_body_def Let_def dict_iadd_def dict_get_def bind_result_def
      dict_contains_def raw_at_def ACCEL_SCALE_MODIFIER_2G_def GYRO_SCALE_MODIFIER_250DEG_def)

lemma body_initial:
  "get_values_body fl bus self n0 initial_values = Inr (accumulators fl bus self n0 (Suc 0))"
  by (simp add: get_values_body_def initial_values_def Let_def dict_iadd_def dict_get_def
      bind_result_def dict_contains_def raw_at_def ACCEL_SCALE_MODIFIER_2G_def
      GYRO_SCALE_MODIFIER_250DEG_def accumulators_def)

lemma raw_at_shift: "raw_at bus (n0 + 7 * k) 7 0 slot reg = raw_at bus n0 7 k slot reg"
  by (simp add: raw_at_def)

lemma body_accumulators:
  "get_values_body fl bus self (n0 + 7 * k) (accumulators fl bus self n0 k)
   = Inr (accumulators fl bus self n0 (Suc k))"
  unfolding accumulators_def body_full raw_at_shift by simp

lemma get_values_loop_accumulators:
  "get_values_loop fl bus self (Suc k) n0 initial_values =
   (Inr (accumulators fl bus self n0 (Suc k)), n0 + 7 * Suc k)"
proof (induction k)
  case 0
  show ?case by (simp add: body_initial)
next
  case (Suc k)
  have "get_values_loop fl bus self (Suc (Suc k)) n0 initial_values
        = get_values_loop fl bus self (Suc 0) (n0 + 7 * Suc k) (accumulators fl bus self n0 (Suc k))"
    by (simp only: get_values_loop_Suc[of fl bus self "Suc k"] Suc.IH prod.case sum.case)
  also have "\<dots> = (Inr (accumulators fl bus self n0 (Suc (Suc k))), n0 + 7 * Suc k + 7)"
    by (simp only: get_values_loop.simps body_accumulators sum.case)
  finally show ?case by simp
qed

lemma get_values_rounded:
  assumes "1 \<le> samples"
  shows "get_values fl bus self samples =
    (Inr [(''GyX'', fmean fl (\<lambda>i. fl (raw_at bus (reads self) 7 i 3 GYRO_XOUT_H - ax_x (gyro_offsets self))) samples),
          (''GyY'', fmean fl (\<lambda>i. fl (raw_at bus (reads self) 7 i 4 (GYRO_XOUT_H + 2) - ax_y (gyro_offsets self))) samples),
          (''GyZ'', fmean fl (\<lambda>i. fl (raw_at bus (reads self) 7 i 5 (GYRO_XOUT_H + 4) - ax_z (gyro_offsets self))) samples),
          (''Tmp'', fmean fl (\<lambda>i. fl (fl (raw_at bus (reads self) 7 i 6 TEMP_OUT_H / 340) + fl (3653 / 100))) samples),
          (''AcX'', fmean fl (\<lambda>i. fl (raw_at bus (reads self) 7 i 0 ACCEL_XOUT_H - ax_x (accel_offsets self))) samples),
          (''AcY'', fmean fl (\<lambda>i. fl (raw_at bus (reads self) 7 i 1 (ACCEL_XOUT_H + 2) - ax_y (accel_offsets self))) samples),
          (''AcZ'', fmean fl (\<lambda>i. fl (raw_at bus (reads self) 7 i 2 (ACCEL_XOUT_H + 4) - ax_z (accel_offsets self))) samples),
          (''GyX_deg'', fmean fl (\<lambda>i. fl (fl (raw_at bus (reads self) 7 i 3 GYRO_XOUT_H - ax_x (gyro_offsets self)) / 131)) samples),
          (''GyY_deg'', fmean fl (\<lambda>i. fl (fl (raw_at bus (reads self) 7 i 4 (GYRO_XOUT_H + 2) - ax_y (gyro_offsets self)) / 131)) samples),
          (''GyZ_deg'', fmean fl (\<lambda>i. fl (fl (raw_at bus (reads self) 7 i 5 (GYRO_XOUT_H + 4) - ax_z (gyro_offsets self)) / 131)) samples),
          (''AcX_g'', fmean fl (\<lambda>i. fl (fl (raw_at bus (reads self) 7 i 0 ACCEL_XOUT_H - ax_x (accel_offsets self)) / 16384)) samples),
          (''AcY_g'', fmean fl (\<lambda>i. fl (fl (raw_at bus (reads self) 7 i 1 (ACCEL_XOUT_H + 2) - ax_y (accel_offsets self)) / 16384)) samples),
          (''AcZ_g'', fmean fl (\<lambda>i. fl (fl (raw_at bus (reads self) 7 i 2 (ACCEL_XOUT_H + 4) - ax_z (accel_offsets self)) / 16384)) samples)],
     self\<lparr>reads := reads self + 7 * nat samples\<rparr>)"
proof -
  have ne: "samples \<noteq> 0" using assms by simp
  obtain k where k: "nat samples = Suc k" using assms by (cases "nat samples") simp_all
  have "get_values fl bus self samples
        = (dict_idiv_all fl (accumulators fl bus self (reads self) (nat samples)) samples,
           self\<lparr>reads := reads self + 7 * nat samples\<rparr>)"
    unfolding get_values_def k get_values_loop_accumulators by simp
  also have "dict_idiv_all fl (accumulators fl bus self (reads self) (nat samples)) samples
        = Inr (map (\<lambda>(key, v). (key, fl (v / real_of_int samples)))
                 (accumulators fl bus self (reads self) (nat samples)))"
    unfolding accumulators_def by (simp add: truediv_ok[OF ne] bind_result_def)
  finally show ?thesis
    unfolding accumulators_def fmean_def by simp
qed

text \<open>
  In exact arithmetic (\<open>fl\<close> the identity) the running sums are sums, so every raw-unit
  field is the mean of the corrected samples and every scaled field is that mean divided
  by the modifier.
\<close>

lemma fsum_exact: "fsum (\<lambda>x. x) f k = (\<Sum>i<k. f i)"
  by (induction k) simp_all

lemma fmean_exact: "fmean (\<lambda>x. x) f samples = mean f samples"
  by (simp add: fmean_def mean_def fsum_exact)

lemma mean_scaled: "mean (\<lambda>i. f i / c) samples = mean f samples / c"
  by (simp add: mean_def sum_divide_distrib mult.commute)

lemma get_values_exact:
  assumes "1 \<le> samples"
  shows "get_values (\<lambda>x. x) bus self samples =
    (Inr [(''GyX'', mean (\<lambda>i. raw_at bus (reads self) 7 i 3 GYRO_XOUT_H - ax_x (gyro_offsets self)) samples),
          (''GyY'', mean (\<lambda>i. raw_at bus (reads self) 7 i 4 (GYRO_XOUT_H + 2) - ax_y (gyro_offsets self)) samples),
          (''GyZ'', mean (\<lambda>i. raw_at bus (reads self) 7 i 5 (GYRO_XOUT_H + 4) - ax_z (gyro_offsets self)) samples),
          (''Tmp'', mean (\<lambda>i. raw_at bus (reads self) 7 i 6 TEMP_OUT_H / 340 + 3653 / 100) samples),
          (''AcX'', mean (\<lambda>i. raw_at bus (reads self) 7 i 0 ACCEL_XOUT_H - ax_x (accel_offsets self)) samples),
          (''AcY'', mean (\<lambda>i. raw_at bus (reads self) 7 i 1 (ACCEL_XOUT_H + 2) - ax_y (accel_offsets self)) samples),
          (''AcZ'', mean (\<lambda>i. raw_at bus (reads self) 7 i 2 (ACCEL_XOUT_H + 4) - ax_z (accel_offsets self)) samples),
          (''GyX_deg'', mean (\<lambda>i. raw_at bus (reads self) 7 i 3 GYRO_XOUT_H - ax_x (gyro_offsets self)) samples / 131),
          (''GyY_deg'', mean (\<lambda>i. raw_at bus (reads self) 7 i 4 (GYRO_XOUT_H + 2) - ax_y (gyro_offsets self)) samples / 131),
          (''GyZ_deg'', mean (\<lambda>i. raw_at bus (reads self) 7 i 5 (GYRO_XOUT_H + 4) - ax_z (gyro_offsets self)) samples / 131),
          (''AcX_g'', mean (\<lambda>i. raw_at bus (reads self) 7 i 0 ACCEL_XOUT_H - ax_x (accel_offsets self)) samples / 16384),
          (''AcY_g'', mean (\<lambda>i. raw_at bus (reads self) 7 i 1 (ACCEL_XOUT_H + 2) - ax_y (accel_offsets self)) samples / 16384),
          (''AcZ_g'', mean (\<lambda>i. raw_at bus (reads self) 7 i 2 (ACCEL_XOUT_H + 4) - ax_z (accel_offsets self)) samples / 16384)],
     self\<lparr>reads := reads self + 7 * nat samples\<rparr>)"
  unfolding get_values_rounded[OF assms] fmean_exact mean_scaled ..

subsection \<open>Double precision roundings\<close>

lemma round_half_even_eq:
  assumes "\<bar>q - of_int m\<bar> < 1 / 2"
  shows "round_half_even q = m"
proof (cases "of_int m \<le> q")
  case True
  then have f: "\<lfloor>q\<rfloor> = m" using assms by (intro floor_unique) auto
  show ?thesis using assms True by (simp add: round_half_even_def f Let_def)
next
  case False
  then have f: "\<lfloor>q\<rfloor> = m - 1" using assms by (intro floor_unique) auto
  show ?thesis using assms False by (simp add: round_half_even_def f Let_def)
qed

lemma binary64_eqI_int:
  fixes e :: int
  assumes lo: "2 ^ 52 \<le> x / 2 powr of_int e" and hi: "x / 2 powr of_int e < 2 ^ 53"
    and m: "\<bar>x / 2 powr of_int e - of_int m\<bar> < 1 / 2"
  shows "binary64 x = of_int m * 2 powr of_int e"
proof -
  have p: "0 < (2::real) powr of_int e" by simp
  have "(0::real) < 2 ^ 52" by simp
  then have "0 < x / 2 powr of_int e" using lo by (rule less_le_trans)
  then have x: "0 < x" using p by (simp add: zero_less_divide_iff)
  have "(of_int (e + 52) :: real) = of_int e + 52" by simp
  then have "(2::real) powr of_int (e + 52) = 2 powr (of_int e + 52)" by (rule arg_cong)
  also have "\<dots> = 2 powr of_int e * 2 powr 52" by (rule powr_add)
  also have "(2::real) powr 52 = 2 ^ 52" by (rule powr_numeral) simp
  finally have l: "2 powr of_int (e + 52) \<le> x"
    using lo p by (simp add: pos_le_divide_eq mult.commute)
  have "(of_int (e + 52) + 1 :: real) = of_int e + 53" by simp
  then have "(2::real) powr (of_int (e + 52) + 1) = 2 powr (of_int e + 53)" by (rule arg_cong)
  also have "\<dots> = 2 powr of_int e * 2 powr 53" by (rule powr_add)
  also have "(2::real) powr 53 = 2 ^ 53" by (rule powr_numeral) simp
  finally have h: "x < 2 powr (of_int (e + 52) + 1)"
    using hi p by (simp add: pos_divide_less_eq mult.commute)
  have "\<lfloor>log 2 x\<rfloor> = e + 52"
    using floor_log_eq_powr_iff[of x 2 "e + 52"] x l h by simp
  then have "\<lfloor>log 2 \<bar>x\<bar>\<rfloor> - 52 = e" using x by simp
  then show ?thesis
    using x by (simp add: binary64_def Let_def round_half_even_eq[OF m])
qed

lemma binary64_eqI:
  fixes k :: nat
  assumes "2 ^ 52 \<le> x * 2 ^ k" and "x * 2 ^ k < 2 ^ 53"
    and "\<bar>x * 2 ^ k - of_int m\<bar> < 1 / 2"
  shows "binary64 x = of_int m / 2 ^ k"
proof -
  have p: "(2::real) powr of_int (- int k) = 1 / 2 ^ k"
    by (simp add: powr_minus powr_realpow field_simps)
  have "binary64 x = of_int m * 2 powr of_int (- int k)"
  proof (rule binary64_eqI_int)
    show "2 ^ 52 \<le> x / 2 powr of_int (- int k)" unfolding p using assms(1) by simp
    show "x / 2 powr of_int (- int k) < 2 ^ 53" unfolding p using assms(2) by simp
    show "\<bar>x / 2 powr of_int (- int k) - of_int m\<bar> < 1 / 2" unfolding p using assms(3) by simp
  qed
  then show ?thesis unfolding p by simp
qed

text \<open>
  The rounding is odd, leaves its own results unchanged and commutes with the division
  by \<open>16384 = 2 ^ 14\<close>; so in double precision the mean of the samples divided by 16384 is
  the mean of the samples, divided by 16384.
\<close>

lemma round_half_even_uminus: "round_half_even (- q) = - round_half_even q"
proof (cases "q = of_int \<lfloor>q\<rfloor>")
  case True
  then obtain z :: int where z: "q = of_int z" by metis
  show ?thesis unfolding z by (simp add: round_half_even_def Let_def flip: of_int_minus)
next
  case False
  then have lt: "of_int \<lfloor>q\<rfloor> < q" using of_int_floor_le[of q] by linarith
  have ub: "q < of_int \<lfloor>q\<rfloor> + 1" by linarith
  have f: "\<lfloor>- q\<rfloor> = - \<lfloor>q\<rfloor> - 1"
  proof (rule floor_unique)
    show "of_int (- \<lfloor>q\<rfloor> - 1) \<le> - q" using ub by linarith
    show "- q < of_int (- \<lfloor>q\<rfloor> - 1) + 1" using lt by linarith
  qed
  show ?thesis
    using lt by (auto simp: round_half_even_def Let_def f)
qed

lemma binary64_uminus: "binary64 (- x) = - binary64 x"
  by (simp add: binary64_def Let_def round_half_even_uminus)

lemma binary64_scale: "binary64 (x / 16384) = binary64 x / 16384"
proof (cases "x = 0")
  case True
  then show ?thesis by (simp add: binary64_def)
next
  case False
  have l: "log 2 \<bar>x / 16384\<bar> = log 2 \<bar>x\<bar> - 14"
  proof -
    have "log 2 (\<bar>x\<bar> / 2 ^ 14) = log 2 \<bar>x\<bar> - log 2 (2 ^ 14)"
      using False by (intro log_divide_pos) auto
    also have "log 2 ((2::real) ^ 14) = real (14::nat)" by (rule log_pow_cancel) simp_all
    finally show ?thesis by simp
  qed
  have fl: "\<lfloor>log 2 \<bar>x / 16384\<bar>\<rfloor> - 52 = (\<lfloor>log 2 \<bar>x\<bar>\<rfloor> - 52) - 14"
    unfolding l by linarith
  define e where "e = \<lfloor>log 2 \<bar>x\<bar>\<rfloor> - 52"
  have p: "(2::real) powr of_int (e - 14) = 2 powr of_int e / 16384"
  proof -
    have "(2::real) powr of_int (e - 14) = 2 powr (of_int e - 14)" by simp
    also have "\<dots> = 2 powr of_int e / 2 powr 14" by (rule powr_diff)
    also have "(2::real) powr 14 = 2 ^ 14" by (rule powr_numeral) simp
    finally show ?thesis by simp
  qed
  have q: "x / 16384 / (2 powr of_int e / 16384) = x / 2 powr of_int e" by simp
  show ?thesis
    using False unfolding binary64_def Let_def fl e_def[symmetric] p q by simp
qed

lemma round_half_even_bounds:
  assumes "of_int a \<le> q" and "q \<le> of_int b"
  shows "a \<le> round_half_even q \<and> round_half_even q \<le> b"
proof -
  have lo: "a \<le> \<lfloor>q\<rfloor>" using assms(1) by (simp add: le_floor_iff)
  show ?thesis
  proof (cases "q = of_int b")
    case True
    then show ?thesis using lo by (simp add: round_half_even_def Let_def)
  next
    case False
    then have "q < of_int b" using assms(2) by simp
    then have "\<lfloor>q\<rfloor> < b" by (simp add: floor_less_iff)
    then show ?thesis using lo by (auto simp: round_half_even_def Let_def)
  qed
qed

lemma binary64_idem_pos:
  assumes x: "0 < x"
  shows "binary64 (binary64 x) = binary64 x"
proof -
  define e where "e = \<lfloor>log 2 \<bar>x\<bar>\<rfloor> - 52"
  define m where "m = round_half_even (x / 2 powr of_int e)"
  have p: "0 < (2::real) powr of_int e" by simp
  have fl: "\<lfloor>log 2 x\<rfloor> = e + 52" using x by (simp add: e_def)
  have b: "2 powr of_int (e + 52) \<le> x \<and> x < 2 powr (of_int (e + 52) + 1)"
    using floor_log_eq_powr_iff[of x 2 "e + 52"] x fl by simp
  have "(of_int (e + 52) :: real) = of_int e + 52" by simp
  then have "(2::real) powr of_int (e + 52) = 2 powr (of_int e + 52)" by (rule arg_cong)
  also have "\<dots> = 2 powr of_int e * 2 powr 52" by (rule powr_add)
  also have "(2::real) powr 52 = 2 ^ 52" by (rule powr_numeral) simp
  finally have p52: "(2::real) powr of_int (e + 52) = 2 powr of_int e * 2 ^ 52" .
  have "(of_int (e + 52) + 1 :: real) = of_int e + 53" by simp
  then have "(2::real) powr (of_int (e + 52) + 1) = 2 powr (of_int e + 53)" by (rule arg_cong)
  also have "\<dots> = 2 powr of_int e * 2 powr 53" by (rule powr_add)
  also have "(2::real) powr 53 = 2 ^ 53" by (rule powr_numeral) simp
  finally have p53: "(2::real) powr (of_int (e + 52) + 1) = 2 powr of_int e * 2 ^ 53" .
  have lo: "of_int (2 ^ 52) \<le> x / 2 powr of_int e"
    using b p unfolding p52 by (simp add: pos_le_divide_eq mult.commute)
  have hi: "x / 2 powr of_int e \<le> of_int (2 ^ 53)"
    using b p unfolding p53 by (simp add: pos_divide_le_eq mult.commute)
  have mb: "2 ^ 52 \<le> m \<and> m \<le> 2 ^ 53"
    unfolding m_def by (rule round_half_even_bounds[OF lo hi])
  have y: "binary64 x = of_int m * 2 powr of_int e"
    using x by (simp add: binary64_def Let_def e_def m_def)
  show ?thesis
  proof (cases "m < 2 ^ 53")
    case True
    have "binary64 (of_int m * 2 powr of_int e) = of_int m * 2 powr of_int e"
    proof (rule binary64_eqI_int)
      show "(2::real) ^ 52 \<le> of_int m * 2 powr of_int e / 2 powr of_int e"
        using mb by simp
      show "of_int m * 2 powr of_int e / 2 powr of_int e < (2::real) ^ 53"
        using True by simp
      show "\<bar>of_int m * 2 powr of_int e / 2 powr of_int e - of_int m\<bar> < (1::real) / 2"
        by simp
    qed
    then show ?thesis unfolding y .
  next
    case False
    then have m: "m = 2 ^ 53" using mb by simp
    have p1: "(2::real) powr of_int (e + 1) = 2 powr of_int e * 2"
    proof -
      have "(of_int (e + 1) :: real) = of_int e + 1" by simp
      then have "(2::real) powr of_int (e + 1) = 2 powr (of_int e + 1)" by (rule arg_cong)
      also have "\<dots> = 2 powr of_int e * 2 powr 1" by (rule powr_add)
      finally show ?thesis by simp
    qed
    have "binary64 (of_int m * 2 powr of_int e) = of_int (2 ^ 52) * 2 powr of_int (e + 1)"
    proof (rule binary64_eqI_int)
      show "(2::real) ^ 52 \<le> of_int m * 2 powr of_int e / 2 powr of_int (e + 1)"
        unfolding p1 m by simp
      show "of_int m * 2 powr of_int e / 2 powr of_int (e + 1) < (2::real) ^ 53"
        unfolding p1 m by simp
      show "\<bar>of_int m * 2 powr of_int e / 2 powr of_int (e + 1) - of_int (2 ^ 52)\<bar> < (1::real) / 2"
        unfolding p1 m by simp
    qed
    also have "\<dots> = of_int m * 2 powr of_int e" unfolding p1 m by simp
    finally show ?thesis unfolding y .
  qed
qed

lemma binary64_idem: "binary64 (binary64 x) = binary64 x"
proof -
  consider "x = 0" | "0 < x" | "x < 0" by linarith
  then show ?thesis
  proof cases
    case 1
    then show ?thesis by (simp add: binary64_def)
  next
    case 2
    then show ?thesis by (rule binary64_idem_pos)
  next
    case 3
    then have "binary64 (binary64 (- x)) = binary64 (- x)" by (intro binary64_idem_pos) simp
    then show ?thesis by (simp add: binary64_uminus)
  qed
qed

lemma fsum_binary64_scale:
  "fsum binary64 (\<lambda>i. binary64 (binary64 (g i) / 16384)) k
   = fsum binary64 (\<lambda>i. binary64 (g i)) k / 16384"
proof (induction k)
  case 0
  show ?case by simp
next
  case (Suc k)
  have g: "binary64 (binary64 (g k) / 16384) = binary64 (g k) / 16384"
    by (simp only: binary64_scale binary64_idem)
  have "fsum binary64 (\<lambda>i. binary64 (binary64 (g i) / 16384)) (Suc k)
      = binary64 (fsum binary64 (\<lambda>i. binary64 (g i)) k / 16384 + binary64 (g k) / 16384)"
    by (simp only: fsum.simps Suc.IH g)
  also have "\<dots> = binary64 ((fsum binary64 (\<lambda>i. binary64 (g i)) k + binary64 (g k)) / 16384)"
    by (simp only: add_divide_distrib)
  also have "\<dots> = fsum binary64 (\<lambda>i. binary64 (g i)) (Suc k) / 16384"
    by (simp only: binary64_scale fsum.simps)
  finally show ?case .
qed

lemma fmean_binary64_scale:
  "fmean binary64 (\<lambda>i. binary64 (binary64 (g i) / 16384)) samples
   = fmean binary64 (\<lambda>i. binary64 (g i)) samples / 16384"
proof -
  have "fsum binary64 (\<lambda>i. binary64 (g i)) (nat samples) / 16384 / real_of_int samples
        = fsum binary64 (\<lambda>i. binary64 (g i)) (nat samples) / real_of_int samples / 16384"
    by simp
  then show ?thesis
    unfolding fmean_def fsum_binary64_scale by (simp only: binary64_scale)
qed

lemma binary64_small_ints:
  "binary64 1 = 1" "binary64 2 = 2" "binary64 3 = 3" "binary64 4 = 4" "binary64 5 = 5"
  using binary64_eqI[of 1 52 "2 ^ 52"] binary64_eqI[of 2 51 "2 ^ 52"]
    binary64_eqI[of 3 51 "3 * 2 ^ 51"] binary64_eqI[of 4 50 "2 ^ 52"]
    binary64_eqI[of 5 50 "5 * 2 ^ 50"]
  by simp_all

lemma binary64_inv_131: "binary64 (1 / 131) = 8800927516082801 / 2 ^ 60"
  by (rule binary64_eqI[of _ _ 8800927516082801, simplified]) simp_all

lemma binary64_gyro_sums:
  "binary64 (0 + 8800927516082801 / 2 ^ 60) = 8800927516082801 / 2 ^ 60"
  "binary64 (8800927516082801 / 2 ^ 60 + 8800927516082801 / 2 ^ 60) = 8800927516082801 / 2 ^ 59"
  "binary64 (8800927516082801 / 2 ^ 59 + 8800927516082801 / 2 ^ 60) = 6600695637062101 / 2 ^ 58"
  "binary64 (6600695637062101 / 2 ^ 58 + 8800927516082801 / 2 ^ 60) = 8800927516082801 / 2 ^ 58"
  "binary64 (8800927516082801 / 2 ^ 58 + 8800927516082801 / 2 ^ 60) = 5500579697551751 / 2 ^ 57"
  "binary64 (5500579697551751 / 2 ^ 57 / 5) = 8800927516082802 / 2 ^ 60"
  using binary64_eqI[of "0 + 8800927516082801 / 2 ^ 60" 60 8800927516082801]
    binary64_eqI[of "8800927516082801 / 2 ^ 60 + 8800927516082801 / 2 ^ 60" 59 8800927516082801]
    binary64_eqI[of "8800927516082801 / 2 ^ 59 + 8800927516082801 / 2 ^ 60" 58 6600695637062101]
    binary64_eqI[of "6600695637062101 / 2 ^ 58 + 8800927516082801 / 2 ^ 60" 58 8800927516082801]
    binary64_eqI[of "8800927516082801 / 2 ^ 58 + 8800927516082801 / 2 ^ 60" 57 5500579697551751]
    binary64_eqI[of "5500579697551751 / 2 ^ 57 / 5" 60 8800927516082802]
  by simp_all

lemma binary64_131: "binary64 131 = 131" "binary64 262 = 262"
  using binary64_eqI[of 131 45 "131 * 2 ^ 45"] binary64_eqI[of 262 44 "262 * 2 ^ 44"]
  by simp_all

lemma fsum_const_2: "fsum fl (\<lambda>i. c) (nat 2) = fl (fl (0 + c) + c)"
  by (simp add: eval_nat_numeral)

lemma raw_at_constant_bus:
  "raw_at (constant_bus r) n0 stride i slot reg = real_of_int (combine (fst r) (snd r))"
  by (simp add: raw_at_def read_raw_data_def constant_bus_def split: prod.splits)

lemma fsum_const_5:
  "fsum fl (\<lambda>i. c) (nat 5) = fl (fl (fl (fl (fl (0 + c) + c) + c) + c) + c)"
  by (simp add: eval_nat_numeral)

lemma fmean_gyro_deg:
  "fmean binary64 (\<lambda>i. 8800927516082801 / 2 ^ 60) 5 = 8800927516082802 / 2 ^ 60"
  unfolding fmean_def fsum_const_5
  by (simp only: binary64_gyro_sums of_int_numeral)

lemma fmean_gyro_raw: "fmean binary64 (\<lambda>i. 1) 5 = 1"
  unfolding fmean_def fsum_const_5
  by (simp add: binary64_small_ints)

lemma get_values_accel_scaled:
  assumes "1 \<le> samples"
  shows "field ''AcX_g'' (fst (get_values binary64 bus self samples))
           = map_option (\<lambda>v. v / 16384) (field ''AcX'' (fst (get_values binary64 bus self samples)))
       \<and> field ''AcY_g'' (fst (get_values binary64 bus self samples))
           = map_option (\<lambda>v. v / 16384) (field ''AcY'' (fst (get_values binary64 bus self samples)))
       \<and> field ''AcZ_g'' (fst (get_values binary64 bus self samples))
           = map_option (\<lambda>v. v / 16384) (field ''AcZ'' (fst (get_values binary64 bus self samples)))"
  unfolding get_values_rounded[OF assms]
  by (simp add: field_def fmean_binary64_scale)

text \<open>
  C8, as stated, fails in double precision for the scaled gyroscope fields. With every
  register holding 1, offsets 0 and five samples, \<^verbatim>\<open>GyX\<close> is 1 and \<^verbatim>\<open>GyX_deg\<close> is
  \<open>8800927516082802 / 2 ^ 60\<close> (printed 0.0076335877862595426), while \<^verbatim>\<open>GyX / 131.0\<close> is
  \<open>8800927516082801 / 2 ^ 60\<close> (printed 0.007633587786259542): the five rounded additions
  of \<open>1 / 131.0\<close> and the division by 5 do not give \<open>1 / 131.0\<close> back.
\<close>

theorem get_values_scaled_gyro_differs:
  "field ''GyX''
     (fst (get_values binary64 (constant_bus (0, 1))
             \<lparr>reads = 0, accel_offsets = zero_axes, gyro_offsets = zero_axes\<rparr> 5))
   = Some 1
   \<and> field ''GyX_deg''
     (fst (get_values binary64 (constant_bus (0, 1))
             \<lparr>reads = 0, accel_offsets = zero_axes, gyro_offsets = zero_axes\<rparr> 5))
   = Some (8800927516082802 / 2 ^ 60)
   \<and> binary64 (1 / 131) = 8800927516082801 / 2 ^ 60
   \<and> field ''GyX_deg''
     (fst (get_values binary64 (constant_bus (0, 1))
             \<lparr>reads = 0, accel_offsets = zero_axes, gyro_offsets = zero_axes\<rparr> 5))
   \<noteq> Some (binary64 (1 / 131))"
proof -
  have h: "(1::int) \<le> 5" by simp
  have c: "combine 0 1 = 1" by (simp add: combine_def)
  have raw: "fl (raw_at (constant_bus (0, 1)) 0 7 i slot reg - ax_x zero_axes) = fl 1"
    for fl :: "real \<Rightarrow> real" and i slot reg
    by (simp add: raw_at_constant_bus c zero_axes_def)
  have x: "field ''GyX''
     (fst (get_values binary64 (constant_bus (0, 1))
             \<lparr>reads = 0, accel_offsets = zero_axes, gyro_offsets = zero_axes\<rparr> 5))
     = Some (fmean binary64 (\<lambda>i. 1) 5)"
    unfolding get_values_rounded[OF h]
    by (simp add: field_def raw binary64_small_ints)
  have d: "field ''GyX_deg''
     (fst (get_values binary64 (constant_bus (0, 1))
             \<lparr>reads = 0, accel_offsets = zero_axes, gyro_offsets = zero_axes\<rparr> 5))
     = Some (fmean binary64 (\<lambda>i. 8800927516082801 / 2 ^ 60) 5)"
    unfolding get_values_rounded[OF h]
    by (simp add: field_def raw binary64_small_ints binary64_inv_131)
  show ?thesis
    unfolding x d fmean_gyro_deg fmean_gyro_raw binary64_inv_131 by simp
qed

text \<open>
  C8, amended. For \<open>samples \<ge> 1\<close> and whatever the rounding of the float arithmetic is,
  \<^verbatim>\<open>get_values\<close> returns every raw-unit field as the mean of the offset-corrected raw
  samples, every scaled field as the mean of the scaled samples (each corrected sample
  divided by its full-scale modifier, 131 or 16384, before it is added to its
  accumulator) and \<^verbatim>\<open>Tmp\<close> as the mean of \<open>raw / 340 + 36.53\<close>; each mean is the running
  sum of the samples, in the order read, divided by \<open>samples\<close> after the loop; seven reads
  are made per sample. In double precision every scaled accelerometer field is the
  raw-unit field of its axis divided by 16384.
\<close>

theorem get_values_averages:
  assumes "1 \<le> samples"
  shows "get_values fl bus self samples =
    (Inr [(''GyX'', fmean fl (\<lambda>i. fl (raw_at bus (reads self) 7 i 3 GYRO_XOUT_H - ax_x (gyro_offsets self))) samples),
          (''GyY'', fmean fl (\<lambda>i. fl (raw_at bus (reads self) 7 i 4 (GYRO_XOUT_H + 2) - ax_y (gyro_offsets self))) samples),
          (''GyZ'', fmean fl (\<lambda>i. fl (raw_at bus (reads self) 7 i 5 (GYRO_XOUT_H + 4) - ax_z (gyro_offsets self))) samples),
          (''Tmp'', fmean fl (\<lambda>i. fl (fl (raw_at bus (reads self) 7 i 6 TEMP_OUT_H / 340) + fl (3653 / 100))) samples),
          (''AcX'', fmean fl (\<lambda>i. fl (raw_at bus (reads self) 7 i 0 ACCEL_XOUT_H - ax_x (accel_offsets self))) samples),
          (''AcY'', fmean fl (\<lambda>i. fl (raw_at bus (reads self) 7 i 1 (ACCEL_XOUT_H + 2) - ax_y (accel_offsets self))) samples),
          (''AcZ'', fmean fl (\<lambda>i. fl (raw_at bus (reads self) 7 i 2 (ACCEL_XOUT_H + 4) - ax_z (accel_offsets self))) samples),
          (''GyX_deg'', fmean fl (\<lambda>i. fl (fl (raw_at bus (reads self) 7 i 3 GYRO_XOUT_H - ax_x (gyro_offsets self)) / 131)) samples),
          (''GyY_deg'', fmean fl (\<lambda>i. fl (fl (raw_at bus (reads self) 7 i 4 (GYRO_XOUT_H + 2) - ax_y (gyro_offsets self)) / 131)) samples),
          (''GyZ_deg'', fmean fl (\<lambda>i. fl (fl (raw_at bus (reads self) 7 i 5 (GYRO_XOUT_H + 4) - ax_z (gyro_offsets self)) / 131)) samples),
          (''AcX_g'', fmean fl (\<lambda>i. fl (fl (raw_at bus (reads self) 7 i 0 ACCEL_XOUT_H - ax_x (accel_offsets self)) / 16384)) samples),
          (''AcY_g'', fmean fl (\<lambda>i. fl (fl (raw_at bus (reads self) 7 i 1 (ACCEL_XOUT_H + 2) - ax_y (accel_offsets self)) / 16384)) samples),
          (''AcZ_g'', fmean fl (\<lambda>i. fl (fl (raw_at bus (reads self) 7 i 2 (ACCEL_XOUT_H + 4) - ax_z (accel_offsets self)) / 16384)) samples)],
     self\<lparr>reads := reads self + 7 * nat samples\<rparr>)
   \<and> field ''AcX_g'' (fst (get_values binary64 bus self samples))
       = map_option (\<lambda>v. v / 16384) (field ''AcX'' (fst (get_values binary64 bus self samples)))
   \<and> field ''AcY_g'' (fst (get_values binary64 bus self samples))
       = map_option (\<lambda>v. v / 16384) (field ''AcY'' (fst (get_values binary64 bus self samples)))
   \<and> field ''AcZ_g'' (fst (get_values binary64 bus self samples))
       = map_option (\<lambda>v. v / 16384) (field ''AcZ'' (fst (get_values binary64 bus self samples)))"
  using get_values_rounded[OF assms, of fl bus self] get_values_accel_scaled[OF assms, of bus self]
  by (rule conjI)

theorem get_values_averages_witness:
  "(1::int) \<le> 2
   \<and> field ''GyX''
        (fst (get_values binary64 (constant_bus (0, 131))
                \<lparr>reads = 0, accel_offsets = zero_axes, gyro_offsets = zero_axes\<rparr> 2))
      = Some 131
   \<and> field ''GyX_deg''
        (fst (get_values binary64 (constant_bus (0, 131))
                \<lparr>reads = 0, accel_offsets = zero_axes, gyro_offsets = zero_axes\<rparr> 2))
      = Some 1
   \<and> snd (get_values binary64 (constant_bus (0, 131))
                \<lparr>reads = 0, accel_offsets = zero_axes, gyro_offsets = zero_axes\<rparr> 2)
      = \<lparr>reads = 14, accel_offsets = zero_axes, gyro_offsets = zero_axes\<rparr>"
proof -
  have h: "(1::int) \<le> 2" by simp
  have c: "combine 0 131 = 131" by (simp add: combine_def)
  have raw: "fl (raw_at (constant_bus (0, 131)) 0 7 i slot reg - ax_x zero_axes) = fl 131"
    for fl :: "real \<Rightarrow> real" and i slot reg
    by (simp add: raw_at_constant_bus c zero_axes_def)
  have m1: "fmean binary64 (\<lambda>i. 131) 2 = 131" and m2: "fmean binary64 (\<lambda>i. 1) 2 = 1"
    unfolding fmean_def fsum_const_2 by (simp_all add: binary64_small_ints binary64_131)
  show ?thesis
    unfolding get_values_averages[OF h, THEN conjunct1]
    by (simp add: field_def raw binary64_small_ints binary64_131 m1 m2)
qed

section \<open>Properties of the display loop\<close>

lemma update_angles_eq:
  assumes "map_of data ''AcX_g'' = Some acx" "map_of data ''AcY_g'' = Some acy"
    "map_of data ''AcZ_g'' = Some acz" "map_of data ''GyX_deg'' = Some gyx"
    "map_of data ''GyY_deg'' = Some gyy" "map_of data ''GyZ_deg'' = Some gyz"
  shows "update_angles prev data dt =
     Inr \<lparr>ax_x = beta * (ax_x prev + gyx * dt) + (1 - beta) * (atan2 acy acz * 180 / pi),
          ax_y = beta * (ax_y prev + gyy * dt)
                 + (1 - beta) * (atan2 (- acx) (sqrt (acy\<^sup>2 + acz\<^sup>2)) * 180 / pi),
          ax_z = ax_z prev + gyz * dt\<rparr>"
  using assms by (simp add: update_angles_def dict_get_def bind_result_def Let_def)

text \<open>
  C4. Given the six scaled keys of the reading, one orientation update computes
  \<open>x = \<beta> (prev_x + GyX_deg dt) + (1 - \<beta>) (atan2 (AcY_g, AcZ_g) 180 / \<pi>)\<close>,
  \<open>y = \<beta> (prev_y + GyY_deg dt) + (1 - \<beta>) (atan2 (- AcX_g, sqrt (AcY_g\<^sup>2 + AcZ_g\<^sup>2)) 180 / \<pi>)\<close>
  and \<open>z = prev_z + GyZ_deg dt\<close>, with \<open>\<beta> = 0.95\<close>; for \<open>dt = 0\<close> the X and Y angles are
  \<open>\<beta>\<close> times the previous angle plus \<open>1 - \<beta>\<close> times the tilt angle, and Z is unchanged.
\<close>

theorem orientation_update:
  assumes "map_of data ''AcX_g'' = Some acx" and "map_of data ''AcY_g'' = Some acy"
    and "map_of data ''AcZ_g'' = Some acz" and "map_of data ''GyX_deg'' = Some gyx"
    and "map_of data ''GyY_deg'' = Some gyy" and "map_of data ''GyZ_deg'' = Some gyz"
  shows "update_angles prev data dt =
     Inr \<lparr>ax_x = beta * (ax_x prev + gyx * dt) + (1 - beta) * (atan2 acy acz * 180 / pi),
          ax_y = beta * (ax_y prev + gyy * dt)
                 + (1 - beta) * (atan2 (- acx) (sqrt (acy\<^sup>2 + acz\<^sup>2)) * 180 / pi),
          ax_z = ax_z prev + gyz * dt\<rparr>
   \<and> update_angles prev data 0 =
     Inr \<lparr>ax_x = beta * ax_x prev + (1 - beta) * (atan2 acy acz * 180 / pi),
          ax_y = beta * ax_y prev
                 + (1 - beta) * (atan2 (- acx) (sqrt (acy\<^sup>2 + acz\<^sup>2)) * 180 / pi),
          ax_z = ax_z prev\<rparr>
   \<and> beta = 95 / 100"
  using update_angles_eq[OF assms, of prev dt] update_angles_eq[OF assms, of prev 0]
  by (simp add: beta_def)

theorem orientation_update_witness:
  "(map_of [(''GyX_deg'', 1), (''GyY_deg'', 2), (''GyZ_deg'', 3), (''AcX_g'', 0), (''AcY_g'', 0), (''AcZ_g'', 1::real)] ''AcX_g'' = Some 0
   \<and> map_of [(''GyX_deg'', 1), (''GyY_deg'', 2), (''GyZ_deg'', 3), (''AcX_g'', 0), (''AcY_g'', 0), (''AcZ_g'', 1::real)] ''AcY_g'' = Some 0
   \<and> map_of [(''GyX_deg'', 1), (''GyY_deg'', 2), (''GyZ_deg'', 3), (''AcX_g'', 0), (''AcY_g'', 0), (''AcZ_g'', 1::real)] ''AcZ_g'' = Some 1
   \<and> map_of [(''GyX_deg'', 1), (''GyY_deg'', 2), (''GyZ_deg'', 3), (''AcX_g'', 0), (''AcY_g'', 0), (''AcZ_g'', 1::real)] ''GyX_deg'' = Some 1
   \<and> map_of [(''GyX_deg'', 1), (''GyY_deg'', 2), (''GyZ_deg'', 3), (''AcX_g'', 0), (''AcY_g'', 0), (''AcZ_g'', 1::real)] ''GyY_deg'' = Some 2
   \<and> map_of [(''GyX_deg'', 1), (''GyY_deg'', 2), (''GyZ_deg'', 3), (''AcX_g'', 0), (''AcY_g'', 0), (''AcZ_g'', 1::real)] ''GyZ_deg'' = Some 3)
   \<and> update_angles \<lparr>ax_x = 10, ax_y = 20, ax_z = 30\<rparr> 
        [(''GyX_deg'', 1), (''GyY_deg'', 2), (''GyZ_deg'', 3), (''AcX_g'', 0), (''AcY_g'', 0), (''AcZ_g'', 1)] (1 / 10)
      = Inr \<lparr>ax_x = beta * (10 + 1 * (1 / 10)) + (1 - beta) * (atan2 0 1 * 180 / pi),
          ax_y = beta * (20 + 2 * (1 / 10))
                 + (1 - beta) * (atan2 (- 0) (sqrt (0\<^sup>2 + 1\<^sup>2)) * 180 / pi),
          ax_z = 30 + 3 * (1 / 10)\<rparr>"
proof -
  let ?d = "[(''GyX_deg'', 1), (''GyY_deg'', 2), (''GyZ_deg'', 3), (''AcX_g'', 0), (''AcY_g'', 0), (''AcZ_g'', 1::real)]"
  have h: "map_of ?d ''AcX_g'' = Some 0" "map_of ?d ''AcY_g'' = Some 0" "map_of ?d ''AcZ_g'' = Some 1"
    "map_of ?d ''GyX_deg'' = Some 1" "map_of ?d ''GyY_deg'' = Some 2" "map_of ?d ''GyZ_deg'' = Some 3"
    by simp_all
  show ?thesis
    using orientation_update[OF h, of "\<lparr>ax_x = 10, ax_y = 20, ax_z = 30\<rparr>" "1 / 10", THEN conjunct1] h
    by (simp only: axes.simps)
qed

text \<open>
  The pass of the loop around the update: with \<open>d\<close> the reading after the filter step and
  \<open>dt\<close> the clock difference in seconds, the new angles are stored, classified and shown.
\<close>

lemma loop_body_step:
  assumes d: "d = low_pass_step (prev_data st) data"
    and "map_of d ''AcX_g'' = Some acx" and "map_of d ''AcY_g'' = Some acy"
    and "map_of d ''AcZ_g'' = Some acz" and "map_of d ''GyX_deg'' = Some gyx"
    and "map_of d ''GyY_deg'' = Some gyy" and "map_of d ''GyZ_deg'' = Some gyz"
    and dt: "dt = real_of_int (current_time - prev_time st) / 1000"
    and angles: "angles =
       \<lparr>ax_x = beta * (ax_x (prev_angles st) + gyx * dt) + (1 - beta) * (atan2 acy acz * 180 / pi),
        ax_y = beta * (ax_y (prev_angles st) + gyy * dt)
               + (1 - beta) * (atan2 (- acx) (sqrt (acy\<^sup>2 + acz\<^sup>2)) * 180 / pi),
        ax_z = ax_z (prev_angles st) + gyz * dt\<rparr>"
  shows "loop_body current_time data st =
     Inr ((debounce st (label_of angles))
            \<lparr>prev_angles := angles, prev_time := current_time, prev_data := d\<rparr>,
          display (debounce st (label_of angles)) (label_of angles) angles)"
proof -
  have u: "update_angles (prev_angles st) d dt = Inr angles"
    unfolding angles by (rule update_angles_eq) fact+
  have c: "dict_contains ''AcX_g'' d" using assms(2) by (simp add: dict_contains_def)
  show ?thesis
    using u c unfolding loop_body_def Let_def d dt
    by (simp add: bind_result_def classify_and_display_def label_of_def debounce_def display_def Let_def)
qed

lemma display_run_append:
  "\<exists>st'. \<forall>ys. display_run st (pre @ ys) = display_run st pre @ display_run st' ys"
proof (induction pre arbitrary: st)
  case Nil
  show ?case by (rule exI[of _ st]) simp
next
  case (Cons a pre)
  obtain st1 shown where cd: "classify_and_display st a = (st1, shown)"
    by (cases "classify_and_display st a")
  from Cons.IH[of st1] obtain st' where
    "\<forall>ys. display_run st1 (pre @ ys) = display_run st1 pre @ display_run st' ys" by blast
  then show ?case using cd by (intro exI[of _ st']) simp
qed

lemma display_run_three:
  "shown_label (last (display_run st [a, b, c]))
   = (if label_of a = label_of b \<and> label_of b = label_of c then Some (label_of c) else None)"
  by (simp add: classify_and_display_def debounce_def display_def shown_label_def label_of_def Let_def)

lemma display_run_last_three:
  "shown_label (last (display_run st (pre @ [a, b, c])))
   = (if label_of a = label_of b \<and> label_of b = label_of c then Some (label_of c) else None)"
proof -
  obtain st' where "display_run st (pre @ [a, b, c]) = display_run st pre @ display_run st' [a, b, c]"
    using display_run_append[of st pre] by blast
  moreover have "display_run st' [a, b, c] \<noteq> []" by (simp split: prod.splits)
  ultimately have "last (display_run st (pre @ [a, b, c])) = last (display_run st' [a, b, c])"
    by simp
  then show ?thesis by (simp only: display_run_three)
qed

lemma display_run_first_two:
  "map shown_label (display_run (initial_loop_state t0) [a, b])
   = [None, if label_of a = ''STOP'' \<and> label_of b = ''STOP'' then Some ''STOP'' else None]"
  by (simp add: classify_and_display_def debounce_def display_def shown_label_def label_of_def Let_def initial_loop_state_def)

lemma display_run_first:
  "map shown_label (display_run (initial_loop_state t0) [a]) = [None]"
  by (simp add: classify_and_display_def debounce_def display_def shown_label_def label_of_def Let_def initial_loop_state_def)

lemma label_examples:
  "label_of (tilt (- 25) 0 0) = ''LEFT''"
  "label_of (tilt 0 0 30) = ''ROTATE_RIGHT''"
  "label_of (tilt 0 0 0) = ''STOP''"
  by (simp_all add: label_of_def tilt_def get_direction_def Let_def
      DEAD_ZONE_def TURN_THRESHOLD_def FORWARD_THRESHOLD_def
  BACKWARD_THRESHOLD_def LEFT_THRESHOLD_def RIGHT_THRESHOLD_def)

lemma display_run_left_three:
  "map shown_label (display_run (initial_loop_state t0)
     [tilt (- 25) 0 0, tilt (- 25) 0 0, tilt (- 25) 0 0])
   = [None, None, Some ''LEFT'']"
  by (simp add: classify_and_display_def debounce_def display_def shown_label_def initial_loop_state_def Let_def label_examples[unfolded label_of_def])

lemma display_run_spike:
  "map shown_label (display_run (initial_loop_state t0)
     [tilt 0 0 0, tilt 0 0 0, tilt 0 0 30, tilt 0 0 0, tilt 0 0 0, tilt 0 0 0])
   = [None, Some ''STOP'', None, None, None, Some ''STOP'']"
  by (simp add: classify_and_display_def debounce_def display_def shown_label_def initial_loop_state_def Let_def label_examples[unfolded label_of_def])

text \<open>
  C1, as stated, fails: after two neutral passes have displayed STOP, two consecutive
  passes with \<open>angle_x = -25\<close> both classify as LEFT, and neither displays anything.
\<close>

theorem debounce_two_cycles_not_displayed:
  "get_direction (- 25) 0 0 = ''LEFT''
   \<and> map shown_label (display_run (initial_loop_state 0)
        [tilt 0 0 0, tilt 0 0 0, tilt (- 25) 0 0, tilt (- 25) 0 0])
     = [None, Some ''STOP'', None, None]"
  by (simp add: classify_and_display_def debounce_def display_def shown_label_def
      initial_loop_state_def Let_def label_examples[unfolded label_of_def]
      label_examples[unfolded label_of_def tilt_def, simplified])

text \<open>
  C1, amended. A pass displays a label exactly when the classifier produced that label in
  this pass and in the two passes before it (the count of matches with the preceding pass
  has reached 2); the label displayed is the current one. Before the first pass the
  previous label is STOP with count 0, so the first pass displays nothing and the second
  displays STOP exactly when both passes gave STOP. Hence a new label sustained for three
  passes (\<open>angle_x = -25\<close>, LEFT) is displayed at the third, a single-pass spike
  (\<open>angle_z = 30\<close>) is never displayed, and while the count is below 2 nothing is
  displayed.
\<close>

theorem debounce_displays_third_cycle:
  "shown_label (last (display_run st (pre @ [a, b, c])))
     = (if label_of a = label_of b \<and> label_of b = label_of c then Some (label_of c) else None)
   \<and> map shown_label (display_run (initial_loop_state t0) [d]) = [None]
   \<and> map shown_label (display_run (initial_loop_state t0) [d, e])
     = [None, if label_of d = ''STOP'' \<and> label_of e = ''STOP'' then Some ''STOP'' else None]
   \<and> map shown_label (display_run (initial_loop_state t0)
        [tilt (- 25) 0 0, tilt (- 25) 0 0, tilt (- 25) 0 0])
     = [None, None, Some ''LEFT'']
   \<and> map shown_label (display_run (initial_loop_state t0)
        [tilt 0 0 0, tilt 0 0 0, tilt 0 0 30, tilt 0 0 0, tilt 0 0 0, tilt 0 0 0])
     = [None, Some ''STOP'', None, None, None, Some ''STOP'']"
  using display_run_last_three[of st pre a b c] display_run_first[of t0 d]
    display_run_first_two[of t0 d e] display_run_left_three[of t0] display_run_spike[of t0]
  by blast

end
